theory Spec2Isabelle
  imports Main
begin

section \<open>The NWC Lightning backend (cashu/lightning/nwc.py)\<close>

text \<open>
  A shallow embedding of the class \<open>NWCWallet\<close>. The wallet talks to three kinds of
  collaborators whose code lives elsewhere: the NIP-47 protocol client (\<open>self.client\<close>),
  the exchange-rate provider (\<open>self.fx\<close>) and a few pure helpers (\<open>bolt11.decode\<close>,
  \<open>fee_reserve\<close>, \<open>Amount.to\<close>, \<open>Unit[name]\<close>). They are parameters of the model, collected
  in the record \<open>env\<close>: every theorem below holds for every behaviour they may show.

  Python integers are \<open>int\<close>; \<open>//\<close> on integers is floor division, which is \<open>div\<close> on
  \<open>int\<close>. Strings are \<open>string\<close>, \<open>Optional[T]\<close> is \<open>T option\<close>.
\<close>

subsection \<open>Exceptions\<close>

text \<open>
  Values of type \<open>exn\<close> stand for the exceptions a call may raise, each carrying the text
  that \<open>str(exc)\<close> yields. \<open>Nip47Error\<close> is the protocol error the handlers single out.
  \<open>OtherException\<close> is any other instance of \<open>Exception\<close>. \<open>OtherBaseException\<close> is an
  exception that derives from \<open>BaseException\<close> and not from \<open>Exception\<close>, such as
  \<open>asyncio.CancelledError\<close> or \<open>KeyboardInterrupt\<close>: a handler \<open>except Exception\<close> does not
  catch it. \<open>is_Exception exc\<close> is \<open>isinstance(exc, Exception)\<close>.
\<close>

datatype exn =
    Nip47Error string
  | Unsupported string
  | AssertionError string
  | NotImplementedError string
  | OtherException string
  | OtherBaseException string

fun str_exn :: "exn \<Rightarrow> string" where
  "str_exn (Nip47Error m) = m"
| "str_exn (Unsupported m) = m"
| "str_exn (AssertionError m) = m"
| "str_exn (NotImplementedError m) = m"
| "str_exn (OtherException m) = m"
| "str_exn (OtherBaseException m) = m"

fun is_Exception :: "exn \<Rightarrow> bool" where
  "is_Exception (Nip47Error m) = True"
| "is_Exception (Unsupported m) = True"
| "is_Exception (AssertionError m) = True"
| "is_Exception (NotImplementedError m) = True"
| "is_Exception (OtherException m) = True"
| "is_Exception (OtherBaseException m) = False"

subsection \<open>Data model\<close>

text \<open>
  \<open>Unit\<close> is the enumeration of accounting units. The source names \<open>sat\<close>, \<open>msat\<close> and
  \<open>usd\<close>; any further member of the enumeration is represented by its name.
\<close>

datatype Unit = sat | msat | usd | other_unit string

record Amount =
  unit :: Unit
  amount :: int

datatype rounding = up | down

text \<open>The caller-owned quote; \<open>pay_invoice\<close> reads \<open>request\<close> and \<open>checking_id\<close>.\<close>

record MeltQuote =
  request :: string
  checking_id :: string

text \<open>
  \<open>PostMeltQuoteRequest\<close>: \<open>mpp\<close> is the multi-path override amount when the request
  carries one, so \<open>is_mpp\<close> is \<open>mpp \<noteq> None\<close> and \<open>mpp_amount\<close> is its content.
\<close>

record PostMeltQuoteRequest =
  request :: string
  unit :: string
  mpp :: "int option"

text \<open>What \<open>bolt11.decode\<close> returns, as far as the wallet reads it.\<close>

record Bolt11 =
  amount_msat :: "int option"
  payment_hash :: string

text \<open>The requests and responses of the protocol client.\<close>

datatype NWCClient = NWCClient (nostrWalletConnectUrl: "string option")

record Nip47GetInfoResponse =
  methods :: "string list"

record Nip47GetBalanceResponse =
  balance :: int

record Nip47MakeInvoiceRequest =
  amount :: int

record Nip47PayInvoiceRequest =
  invoice :: string

record Nip47LookupInvoiceRequest =
  payment_hash :: string

record Nip47PayResponse =
  preimage :: string

record Nip47Transaction =
  invoice :: string
  payment_hash :: string
  preimage :: "string option"
  fees_paid :: int

text \<open>The result types of the backend interface.\<close>

record StatusResponse =
  balance :: int
  error_message :: "string option"

record InvoiceResponse =
  ok :: bool
  checking_id :: "string option"
  payment_request :: "string option"
  error_message :: "string option"

record PaymentResponse =
  ok :: bool
  checking_id :: "string option"
  fee :: "Amount option"
  preimage :: "string option"
  error_message :: "string option"

record PaymentStatus =
  paid :: bool

record PaymentQuoteResponse =
  checking_id :: string
  fee :: Amount
  amount :: Amount

subsection \<open>Effects: suspending calls, exceptions, the call trace\<close>

text \<open>
  The collaborators are remote services: a call may change their state and two calls with
  the same arguments may answer differently. Their state is a value of an arbitrary type
  \<open>'w\<close>; a call maps it to an answer (an exception or a result) and a new state. The model
  adds a trace, the list of the calls the wallet has made, in order, so that statements
  such as "the balance is not queried" can be made. Log output is not modelled.
\<close>

datatype event =
    GetInfo
  | GetBalance
  | MakeInvoice Nip47MakeInvoiceRequest
  | PayInvoice Nip47PayInvoiceRequest
  | LookupInvoice Nip47LookupInvoiceRequest
  | ToSats int Unit
  | FromSats int Unit

type_synonym 'w st = "'w \<times> event list"

type_synonym ('w, 'a) io = "'w st \<Rightarrow> (exn + 'a) \<times> 'w st"

definition ret :: "'a \<Rightarrow> ('w, 'a) io" where
  "ret v s = (Inr v, s)"

definition raise :: "exn \<Rightarrow> ('w, 'a) io" where
  "raise e s = (Inl e, s)"

definition lift :: "exn + 'a \<Rightarrow> ('w, 'a) io" where
  "lift r s = (r, s)"

definition bnd :: "('w, 'a) io \<Rightarrow> ('a \<Rightarrow> ('w, 'b) io) \<Rightarrow> ('w, 'b) io" where
  "bnd m f s = (case m s of (Inl e, s') \<Rightarrow> (Inl e, s') | (Inr v, s') \<Rightarrow> f v s')"

definition try_except :: "('w, 'a) io \<Rightarrow> (exn \<Rightarrow> ('w, 'a) io) \<Rightarrow> ('w, 'a) io" where
  "try_except m h s = (case m s of (Inl e, s') \<Rightarrow> h e s' | (Inr v, s') \<Rightarrow> (Inr v, s'))"

definition await :: "event \<Rightarrow> ('w \<Rightarrow> (exn + 'a) \<times> 'w) \<Rightarrow> ('w, 'a) io" where
  "await ev f s = (case s of (w, tr) \<Rightarrow> (case f w of (r, w') \<Rightarrow> (r, (w', tr @ [ev]))))"

text \<open>The collaborators.\<close>

record 'w env =
  client_get_info :: "NWCClient \<Rightarrow> 'w \<Rightarrow> (exn + Nip47GetInfoResponse) \<times> 'w"
  client_get_balance :: "NWCClient \<Rightarrow> 'w \<Rightarrow> (exn + Nip47GetBalanceResponse) \<times> 'w"
  client_create_invoice ::
    "NWCClient \<Rightarrow> Nip47MakeInvoiceRequest \<Rightarrow> 'w \<Rightarrow> (exn + Nip47Transaction) \<times> 'w"
  client_pay_invoice ::
    "NWCClient \<Rightarrow> Nip47PayInvoiceRequest \<Rightarrow> 'w \<Rightarrow> (exn + Nip47PayResponse) \<times> 'w"
  client_lookup_invoice ::
    "NWCClient \<Rightarrow> Nip47LookupInvoiceRequest \<Rightarrow> 'w \<Rightarrow> (exn + Nip47Transaction) \<times> 'w"
  fx_to_sats :: "int \<Rightarrow> Unit \<Rightarrow> 'w \<Rightarrow> (exn + int) \<times> 'w"
  fx_from_sats :: "int \<Rightarrow> Unit \<Rightarrow> 'w \<Rightarrow> (exn + int) \<times> 'w"
  decode :: "string \<Rightarrow> exn + Bolt11"
  fee_reserve :: "int \<Rightarrow> exn + int"
  unit_by_name :: "string \<Rightarrow> exn + Unit"
  amount_to :: "Amount \<Rightarrow> Unit \<Rightarrow> rounding option \<Rightarrow> exn + Amount"

text \<open>
  The protocol client and the rate provider raise nothing but instances of \<open>Exception\<close>:
  protocol errors and generic exceptions.
\<close>

definition raises_only_Exception :: "'w env \<Rightarrow> bool" where
  "raises_only_Exception env \<longleftrightarrow>
     (\<forall>c w e w'. client_get_info env c w = (Inl e, w') \<longrightarrow> is_Exception e)
   \<and> (\<forall>c w e w'. client_get_balance env c w = (Inl e, w') \<longrightarrow> is_Exception e)
   \<and> (\<forall>c req w e w'. client_create_invoice env c req w = (Inl e, w') \<longrightarrow> is_Exception e)
   \<and> (\<forall>c req w e w'. client_pay_invoice env c req w = (Inl e, w') \<longrightarrow> is_Exception e)
   \<and> (\<forall>c req w e w'. client_lookup_invoice env c req w = (Inl e, w') \<longrightarrow> is_Exception e)
   \<and> (\<forall>a u w e w'. fx_to_sats env a u w = (Inl e, w') \<longrightarrow> is_Exception e)
   \<and> (\<forall>a u w e w'. fx_from_sats env a u w = (Inl e, w') \<longrightarrow> is_Exception e)"

subsection \<open>The wallet\<close>

definition required_nip47_methods :: "string list" where
  "required_nip47_methods =
     [''get_info'', ''get_balance'', ''make_invoice'', ''pay_invoice'', ''lookup_invoice'']"

definition supported_units :: "Unit set" where
  "supported_units = {sat, usd}"

record settings =
  mint_nwc_url :: "string option"

record NWCWallet =
  unit :: Unit
  client :: NWCClient

text \<open>
  Modelled from the spec: \<open>assert_unit_supported\<close> is a method of the base class
  \<open>LightningBackend\<close>, which is not among the sources. The spec says that construction
  "fails immediately (construction-time error) if the unit is not in the adapter's
  supported set".
\<close>

definition assert_unit_supported :: "Unit \<Rightarrow> exn + unit" where
  "assert_unit_supported u =
     (if u \<in> supported_units then Inr () else Inl (Unsupported ''unit is not supported''))"

text \<open>
  Modelled from the spec: the constructor of \<open>NWCClient\<close> is not among the sources. The spec
  says that the wallet "holds one protocol-client handle for its lifetime; the handle's
  connection parameters come from process-wide configuration, read once at construction",
  so the handle is the constructor \<open>NWCClient\<close> applied to \<open>settings.mint_nwc_url\<close>.
  \<open>NWCWallet.__init__\<close> checks the unit, stores it and creates the handle.
\<close>

definition init :: "settings \<Rightarrow> Unit \<Rightarrow> exn + NWCWallet" where
  "init cfg u =
     (case assert_unit_supported u of
        Inl e \<Rightarrow> Inl e
      | Inr _ \<Rightarrow> Inr \<lparr>NWCWallet.unit = u, client = NWCClient (mint_nwc_url cfg)\<rparr>)"

definition amt_to_sat :: "'w env \<Rightarrow> NWCWallet \<Rightarrow> int \<Rightarrow> ('w, int) io" where
  "amt_to_sat env self amt =
     await (ToSats amt (NWCWallet.unit self)) (fx_to_sats env amt (NWCWallet.unit self))"

text \<open>
  The rendering of the method list inside the error message of \<open>status\<close>: the names in
  single quotes, separated by commas, in brackets. This is Python's \<open>repr\<close> of a list of
  strings that hold no quote, backslash or control character, as method names do.
\<close>

fun join_methods :: "string list \<Rightarrow> string" where
  "join_methods [] = []"
| "join_methods [m] = [CHR 0x27] @ m @ [CHR 0x27]"
| "join_methods (m # ms) = [CHR 0x27] @ m @ [CHR 0x27] @ '', '' @ join_methods ms"

definition repr_methods :: "string list \<Rightarrow> string" where
  "repr_methods ms = ''['' @ join_methods ms @ '']''"

definition status_body :: "'w env \<Rightarrow> NWCWallet \<Rightarrow> ('w, StatusResponse) io" where
  "status_body env self =
     bnd (await GetInfo (client_get_info env (client self))) (\<lambda>info.
       if \<not> list_all (\<lambda>method. method \<in> set (methods info)) required_nip47_methods
       then ret \<lparr>StatusResponse.balance = 0,
                 error_message = Some (''NWC does not support all required methods. Supports: ''
                                       @ repr_methods (methods info))\<rparr>
       else
         bnd (await GetBalance (client_get_balance env (client self))) (\<lambda>res.
           let balance_msat = Nip47GetBalanceResponse.balance res in
           bnd (await (FromSats (balance_msat div 1000) (NWCWallet.unit self))
                  (fx_from_sats env (balance_msat div 1000) (NWCWallet.unit self))) (\<lambda>balance.
             ret \<lparr>StatusResponse.balance = balance, error_message = None\<rparr>)))"

definition status_except :: "exn \<Rightarrow> ('w, StatusResponse) io" where
  "status_except exc =
     (case exc of
        Nip47Error _ \<Rightarrow> ret \<lparr>StatusResponse.balance = 0, error_message = Some (str_exn exc)\<rparr>
      | _ \<Rightarrow>
          if is_Exception exc
          then ret \<lparr>StatusResponse.balance = 0,
                    error_message = Some (''Failed to connect to lightning wallet via NWC due to: ''
                                          @ str_exn exc)\<rparr>
          else raise exc)"

definition status :: "'w env \<Rightarrow> NWCWallet \<Rightarrow> ('w, StatusResponse) io" where
  "status env self = try_except (status_body env self) status_except"

definition create_invoice_body :: "'w env \<Rightarrow> NWCWallet \<Rightarrow> Amount \<Rightarrow> ('w, InvoiceResponse) io" where
  "create_invoice_body env self amt =
     bnd (amt_to_sat env self (Amount.amount amt)) (\<lambda>amount_sat.
       bnd (await (MakeInvoice \<lparr>Nip47MakeInvoiceRequest.amount = amount_sat * 1000\<rparr>)
              (client_create_invoice env (client self)
                 \<lparr>Nip47MakeInvoiceRequest.amount = amount_sat * 1000\<rparr>)) (\<lambda>res.
         ret \<lparr>InvoiceResponse.ok = True,
              checking_id = Some (Nip47Transaction.payment_hash res),
              payment_request = Some (Nip47Transaction.invoice res),
              error_message = None\<rparr>))"

definition create_invoice_except :: "exn \<Rightarrow> ('w, InvoiceResponse) io" where
  "create_invoice_except exc =
     (case exc of
        Nip47Error _ \<Rightarrow>
          ret \<lparr>InvoiceResponse.ok = False, checking_id = None, payment_request = None,
               error_message = Some (str_exn exc)\<rparr>
      | _ \<Rightarrow>
          if is_Exception exc
          then ret \<lparr>InvoiceResponse.ok = False, checking_id = None, payment_request = None,
                    error_message = Some (''Failed to create invoice due to: '' @ str_exn exc)\<rparr>
          else raise exc)"

text \<open>
  \<open>memo\<close>, \<open>description_hash\<close> and \<open>unhashed_description\<close> are accepted and not read.
\<close>

definition create_invoice ::
  "'w env \<Rightarrow> NWCWallet \<Rightarrow> Amount \<Rightarrow> string option \<Rightarrow> string option \<Rightarrow> string option
     \<Rightarrow> ('w, InvoiceResponse) io" where
  "create_invoice env self amt memo description_hash unhashed_description =
     try_except (create_invoice_body env self amt) create_invoice_except"

text \<open>
  The inner \<open>try\<close> of \<open>pay_invoice\<close>: the fees of the payment, in satoshis, or 0 when the
  lookup raises an instance of \<open>Exception\<close>.
\<close>

definition pay_invoice_fees :: "'w env \<Rightarrow> NWCWallet \<Rightarrow> MeltQuote \<Rightarrow> ('w, int) io" where
  "pay_invoice_fees env self quote =
     try_except
       (bnd (await (LookupInvoice \<lparr>Nip47LookupInvoiceRequest.payment_hash =
                                     MeltQuote.checking_id quote\<rparr>)
               (client_lookup_invoice env (client self)
                  \<lparr>Nip47LookupInvoiceRequest.payment_hash = MeltQuote.checking_id quote\<rparr>))
          (\<lambda>invoice. ret (fees_paid invoice div 1000)))
       (\<lambda>exc. if is_Exception exc then ret 0 else raise exc)"

definition pay_invoice_body ::
  "'w env \<Rightarrow> NWCWallet \<Rightarrow> MeltQuote \<Rightarrow> int \<Rightarrow> ('w, PaymentResponse) io" where
  "pay_invoice_body env self quote fee_limit_msat =
     bnd (await (PayInvoice \<lparr>Nip47PayInvoiceRequest.invoice = MeltQuote.request quote\<rparr>)
            (client_pay_invoice env (client self)
               \<lparr>Nip47PayInvoiceRequest.invoice = MeltQuote.request quote\<rparr>)) (\<lambda>pay_invoice_res.
       bnd (pay_invoice_fees env self quote) (\<lambda>fees.
         bnd (if fees > 0
              then await (FromSats fees (NWCWallet.unit self))
                     (fx_from_sats env fees (NWCWallet.unit self))
              else ret fees) (\<lambda>fees.
           ret \<lparr>PaymentResponse.ok = True,
                checking_id = None,
                fee = Some \<lparr>Amount.unit = NWCWallet.unit self, amount = fees\<rparr>,
                preimage = Some (Nip47PayResponse.preimage pay_invoice_res),
                error_message = None\<rparr>)))"

definition pay_invoice_except :: "exn \<Rightarrow> ('w, PaymentResponse) io" where
  "pay_invoice_except exc =
     (case exc of
        Nip47Error _ \<Rightarrow>
          ret \<lparr>PaymentResponse.ok = False, checking_id = None, fee = None, preimage = None,
               error_message = Some (str_exn exc)\<rparr>
      | _ \<Rightarrow>
          if is_Exception exc
          then ret \<lparr>PaymentResponse.ok = False, checking_id = None, fee = None, preimage = None,
                    error_message = Some (''Failed to pay invoice due to: '' @ str_exn exc)\<rparr>
          else raise exc)"

definition pay_invoice ::
  "'w env \<Rightarrow> NWCWallet \<Rightarrow> MeltQuote \<Rightarrow> int \<Rightarrow> ('w, PaymentResponse) io" where
  "pay_invoice env self quote fee_limit_msat =
     try_except (pay_invoice_body env self quote fee_limit_msat) pay_invoice_except"

definition get_invoice_status_body :: "'w env \<Rightarrow> NWCWallet \<Rightarrow> string \<Rightarrow> ('w, PaymentStatus) io" where
  "get_invoice_status_body env self cid =
     bnd (await (LookupInvoice \<lparr>Nip47LookupInvoiceRequest.payment_hash = cid\<rparr>)
            (client_lookup_invoice env (client self)
               \<lparr>Nip47LookupInvoiceRequest.payment_hash = cid\<rparr>)) (\<lambda>res.
       let paid = (Nip47Transaction.preimage res \<noteq> None
                   \<and> Nip47Transaction.preimage res \<noteq> Some []) in
       ret \<lparr>paid = paid\<rparr>)"

definition get_invoice_status :: "'w env \<Rightarrow> NWCWallet \<Rightarrow> string \<Rightarrow> ('w, PaymentStatus) io" where
  "get_invoice_status env self cid =
     try_except (get_invoice_status_body env self cid)
       (\<lambda>exc. if is_Exception exc then ret \<lparr>paid = False\<rparr> else raise exc)"

definition get_payment_status_body :: "'w env \<Rightarrow> NWCWallet \<Rightarrow> string \<Rightarrow> ('w, PaymentStatus) io" where
  "get_payment_status_body env self cid =
     bnd (await (LookupInvoice \<lparr>Nip47LookupInvoiceRequest.payment_hash = cid\<rparr>)
            (client_lookup_invoice env (client self)
               \<lparr>Nip47LookupInvoiceRequest.payment_hash = cid\<rparr>)) (\<lambda>res.
       let paid = (Nip47Transaction.preimage res \<noteq> None
                   \<and> Nip47Transaction.preimage res \<noteq> Some []) in
       ret \<lparr>paid = paid\<rparr>)"

definition get_payment_status :: "'w env \<Rightarrow> NWCWallet \<Rightarrow> string \<Rightarrow> ('w, PaymentStatus) io" where
  "get_payment_status env self cid =
     try_except (get_payment_status_body env self cid)
       (\<lambda>exc. if is_Exception exc then ret \<lparr>paid = False\<rparr> else raise exc)"

text \<open>
  \<open>get_payment_quote\<close> has no \<open>try\<close>: whatever a step raises is the outcome of the call.
  The \<open>assert\<close> fails on an absent amount and on the amount 0, both being false in Python.
  An \<open>Amount\<close> object is always true, so \<open>if amount\<close> holds exactly for a multi-path request.
\<close>

definition get_payment_quote ::
  "'w env \<Rightarrow> NWCWallet \<Rightarrow> PostMeltQuoteRequest \<Rightarrow> ('w, PaymentQuoteResponse) io" where
  "get_payment_quote env self melt_quote =
     bnd (case mpp melt_quote of
            Some mpp_amount \<Rightarrow>
              bnd (lift (unit_by_name env (PostMeltQuoteRequest.unit melt_quote))) (\<lambda>u.
                ret (Some \<lparr>Amount.unit = u, amount = mpp_amount\<rparr>))
          | None \<Rightarrow> ret None) (\<lambda>amt.
     bnd (lift (decode env (PostMeltQuoteRequest.request melt_quote))) (\<lambda>invoice_obj.
     bnd (case amount_msat invoice_obj of
            None \<Rightarrow> raise (AssertionError ''invoice has no amount.'')
          | Some m \<Rightarrow> if m = 0 then raise (AssertionError ''invoice has no amount.'') else ret m)
         (\<lambda>invoice_amount_msat.
     bnd (case amt of
            Some a \<Rightarrow> bnd (lift (amount_to env a msat None)) (\<lambda>r. ret (Amount.amount r))
          | None \<Rightarrow> ret invoice_amount_msat) (\<lambda>amt_msat.
     bnd (lift (fee_reserve env amt_msat)) (\<lambda>fees_msat.
     bnd (await (FromSats (amt_msat div 1000) (NWCWallet.unit self))
            (fx_from_sats env (amt_msat div 1000) (NWCWallet.unit self))) (\<lambda>amount_unit.
     bnd (await (FromSats (fees_msat div 1000) (NWCWallet.unit self))
            (fx_from_sats env (fees_msat div 1000) (NWCWallet.unit self))) (\<lambda>fees_unit.
     let amt = \<lparr>Amount.unit = NWCWallet.unit self, amount = amount_unit\<rparr>;
         fees = \<lparr>Amount.unit = NWCWallet.unit self, amount = fees_unit\<rparr> in
     bnd (lift (amount_to env fees (NWCWallet.unit self) (Some up))) (\<lambda>fee_up.
     bnd (lift (amount_to env amt (NWCWallet.unit self) (Some up))) (\<lambda>amount_up.
       ret \<lparr>PaymentQuoteResponse.checking_id = Bolt11.payment_hash invoice_obj,
            fee = fee_up,
            amount = amount_up\<rparr>)))))))))"

definition paid_invoices_stream :: "NWCWallet \<Rightarrow> exn + string list" where
  "paid_invoices_stream self = Inl (NotImplementedError ''paid_invoices_stream not implemented'')"

subsection \<open>A concrete environment\<close>

text \<open>
  One instance of the collaborators, on which the model is run in the examples below: a
  wallet in satoshis, a protocol client that answers every request, a rate provider that
  maps satoshis to satoshis, a fee reserve of one percent and at least 2000 millisatoshis,
  and an invoice of 250500 millisatoshis. The state of the collaborators is trivial.
\<close>

definition demo_client :: NWCClient where
  "demo_client = NWCClient (Some ''nostr+walletconnect://wallet'')"

definition demo_wallet :: NWCWallet where
  "demo_wallet = \<lparr>NWCWallet.unit = sat, client = demo_client\<rparr>"

definition demo_quote :: MeltQuote where
  "demo_quote = \<lparr>MeltQuote.request = ''lnbc2505n1demo'', checking_id = ''ab12''\<rparr>"

definition demo_melt_request :: PostMeltQuoteRequest where
  "demo_melt_request =
     \<lparr>PostMeltQuoteRequest.request = ''lnbc2505n1demo'', unit = ''sat'', mpp = None\<rparr>"

definition demo_unit_by_name :: "string \<Rightarrow> exn + Unit" where
  "demo_unit_by_name n =
     (if n = ''sat'' then Inr sat
      else if n = ''msat'' then Inr msat
      else if n = ''usd'' then Inr usd
      else Inl (OtherException n))"

definition demo_amount_to :: "Amount \<Rightarrow> Unit \<Rightarrow> rounding option \<Rightarrow> exn + Amount" where
  "demo_amount_to a to_unit r =
     (if Amount.unit a = to_unit then Inr a
      else if Amount.unit a = sat \<and> to_unit = msat
        then Inr \<lparr>Amount.unit = msat, amount = Amount.amount a * 1000\<rparr>
      else if Amount.unit a = msat \<and> to_unit = sat
        then (if r = Some up
              then Inr \<lparr>Amount.unit = sat, amount = - ((- Amount.amount a) div 1000)\<rparr>
              else Inr \<lparr>Amount.unit = sat, amount = Amount.amount a div 1000\<rparr>)
      else Inl (OtherException ''Cannot convert''))"

definition demo_transaction :: Nip47Transaction where
  "demo_transaction =
     \<lparr>Nip47Transaction.invoice = ''lnbc2505n1demo'', payment_hash = ''ab12'',
      preimage = Some ''c0ffee'', fees_paid = 2500\<rparr>"

definition demo_env :: "unit env" where
  "demo_env =
     \<lparr>client_get_info = (\<lambda>c w. (Inr \<lparr>methods = required_nip47_methods\<rparr>, w)),
      client_get_balance = (\<lambda>c w. (Inr \<lparr>Nip47GetBalanceResponse.balance = 12345678\<rparr>, w)),
      client_create_invoice = (\<lambda>c req w. (Inr demo_transaction, w)),
      client_pay_invoice = (\<lambda>c req w. (Inr \<lparr>Nip47PayResponse.preimage = ''c0ffee''\<rparr>, w)),
      client_lookup_invoice = (\<lambda>c req w. (Inr demo_transaction, w)),
      fx_to_sats = (\<lambda>a u w. (Inr a, w)),
      fx_from_sats = (\<lambda>s u w. (Inr s, w)),
      decode = (\<lambda>r. Inr \<lparr>amount_msat = Some 250500, payment_hash = ''ab12''\<rparr>),
      fee_reserve = (\<lambda>a. Inr (max 2000 (a div 100))),
      unit_by_name = demo_unit_by_name,
      amount_to = demo_amount_to\<rparr>"

text \<open>
  Variations: a collaborator that raises, a call that is cancelled, a capability that is
  missing, other figures.
\<close>

definition demo_env_no_pay :: "unit env" where
  "demo_env_no_pay =
     demo_env\<lparr>client_get_info :=
       (\<lambda>c w. (Inr \<lparr>methods = [''get_info'', ''get_balance'', ''make_invoice'',
                                ''lookup_invoice'']\<rparr>, w))\<rparr>"

definition demo_env_rate_down :: "unit env" where
  "demo_env_rate_down =
     demo_env\<lparr>fx_to_sats := (\<lambda>a u w. (Inl (OtherException ''rate fetch failed''), w)),
              fx_from_sats := (\<lambda>s u w. (Inl (OtherException ''rate fetch failed''), w))\<rparr>"

definition demo_env_client_down :: "unit env" where
  "demo_env_client_down =
     demo_env\<lparr>client_get_info := (\<lambda>c w. (Inl (Nip47Error ''RATE_LIMITED''), w)),
              client_get_balance := (\<lambda>c w. (Inl (Nip47Error ''RATE_LIMITED''), w)),
              client_create_invoice := (\<lambda>c req w. (Inl (Nip47Error ''RATE_LIMITED''), w)),
              client_pay_invoice := (\<lambda>c req w. (Inl (OtherException ''timeout''), w)),
              client_lookup_invoice := (\<lambda>c req w. (Inl (Nip47Error ''NOT_FOUND''), w))\<rparr>"

definition demo_env_client_cancelled :: "unit env" where
  "demo_env_client_cancelled =
     demo_env\<lparr>client_get_info := (\<lambda>c w. (Inl (OtherBaseException ''CancelledError''), w)),
              client_lookup_invoice :=
                (\<lambda>c req w. (Inl (OtherBaseException ''CancelledError''), w))\<rparr>"

definition demo_env_rate_cancelled :: "unit env" where
  "demo_env_rate_cancelled =
     demo_env\<lparr>fx_to_sats := (\<lambda>a u w. (Inl (OtherBaseException ''CancelledError''), w)),
              fx_from_sats := (\<lambda>s u w. (Inl (OtherBaseException ''CancelledError''), w))\<rparr>"

definition demo_env_lookup_down :: "unit env" where
  "demo_env_lookup_down =
     demo_env\<lparr>client_lookup_invoice := (\<lambda>c req w. (Inl (Nip47Error ''NOT_FOUND''), w))\<rparr>"

definition demo_env_small_fee :: "unit env" where
  "demo_env_small_fee =
     demo_env\<lparr>client_lookup_invoice :=
                (\<lambda>c req w. (Inr (demo_transaction\<lparr>fees_paid := 999\<rparr>), w)),
              decode := (\<lambda>r. Inr \<lparr>amount_msat = Some 1000, payment_hash = ''ab12''\<rparr>),
              fee_reserve := (\<lambda>a. Inr 1)\<rparr>"

section \<open>Properties\<close>

subsection \<open>Running the effects\<close>

lemma bnd_Inr: "m s = (Inr v, s') \<Longrightarrow> bnd m f s = f v s'"
  by (simp add: bnd_def)

lemma bnd_Inl: "m s = (Inl e, s') \<Longrightarrow> bnd m f s = (Inl e, s')"
  by (simp add: bnd_def)

lemma await_eq: "f w = (r, w') \<Longrightarrow> await ev f (w, tr) = (r, (w', tr @ [ev]))"
  by (simp add: await_def)

lemma try_except_Inr: "m s = (Inr v, s') \<Longrightarrow> try_except m h s = (Inr v, s')"
  by (simp add: try_except_def)

lemma try_except_Inl: "m s = (Inl e, s') \<Longrightarrow> try_except m h s = h e s'"
  by (simp add: try_except_def)

subsection \<open>What the collaborators raise\<close>

lemma only_Exception_get_info:
  fixes env :: "'w env"
  shows "raises_only_Exception env \<Longrightarrow> client_get_info env c w = (Inl e, w') \<Longrightarrow> is_Exception e"
  unfolding raises_only_Exception_def by fast

lemma only_Exception_get_balance:
  fixes env :: "'w env"
  shows "raises_only_Exception env \<Longrightarrow> client_get_balance env c w = (Inl e, w') \<Longrightarrow> is_Exception e"
  unfolding raises_only_Exception_def by fast

lemma only_Exception_create_invoice:
  fixes env :: "'w env"
  shows "raises_only_Exception env \<Longrightarrow> client_create_invoice env c req w = (Inl e, w')
     \<Longrightarrow> is_Exception e"
  unfolding raises_only_Exception_def by fast

lemma only_Exception_pay_invoice:
  fixes env :: "'w env"
  shows "raises_only_Exception env \<Longrightarrow> client_pay_invoice env c req w = (Inl e, w')
     \<Longrightarrow> is_Exception e"
  unfolding raises_only_Exception_def by fast

lemma only_Exception_lookup_invoice:
  fixes env :: "'w env"
  shows "raises_only_Exception env \<Longrightarrow> client_lookup_invoice env c req w = (Inl e, w')
     \<Longrightarrow> is_Exception e"
  unfolding raises_only_Exception_def by fast

lemma only_Exception_to_sats:
  fixes env :: "'w env"
  shows "raises_only_Exception env \<Longrightarrow> fx_to_sats env a u w = (Inl e, w') \<Longrightarrow> is_Exception e"
  unfolding raises_only_Exception_def by fast

lemma only_Exception_from_sats:
  fixes env :: "'w env"
  shows "raises_only_Exception env \<Longrightarrow> fx_from_sats env a u w = (Inl e, w') \<Longrightarrow> is_Exception e"
  unfolding raises_only_Exception_def by fast

subsection \<open>\<open>status\<close>\<close>

lemma required_methods_iff:
  "list_all (\<lambda>method. method \<in> set ms) required_nip47_methods \<longleftrightarrow>
     {''get_info'', ''get_balance'', ''make_invoice'', ''pay_invoice'', ''lookup_invoice''}
       \<subseteq> set ms"
  by (simp add: required_nip47_methods_def)

lemma status_except_eq:
  "is_Exception e \<Longrightarrow>
     \<exists>msg. status_except e s = (Inr \<lparr>StatusResponse.balance = 0, error_message = Some msg\<rparr>, s)"
  by (cases e) (simp_all add: status_except_def ret_def)

lemma status_except_reraise: "\<not> is_Exception e \<Longrightarrow> status_except e s = (Inl e, s)"
  by (cases e) (simp_all add: status_except_def raise_def)

lemma try_except_cases:
  "(\<exists>v s'. m s = (Inr v, s') \<and> try_except m h s = (Inr v, s'))
   \<or> (\<exists>e s'. m s = (Inl e, s') \<and> try_except m h s = h e s')"
proof -
  obtain r s' where "m s = (r, s')" by (cases "m s") auto
  then show ?thesis by (cases r) (simp_all add: try_except_def)
qed

lemma status_caught:
  assumes "\<And>e s1. status_body env self s = (Inl e, s1) \<Longrightarrow> is_Exception e"
  shows "\<exists>r s'. status env self s = (Inr r, s')"
proof -
  from try_except_cases [of "status_body env self" s status_except]
  show ?thesis
  proof (elim disjE exE conjE)
    fix v s' assume "status_body env self s = (Inr v, s')"
      and "try_except (status_body env self) status_except s = (Inr v, s')"
    then show ?thesis by (simp add: status_def)
  next
    fix e s' assume b: "status_body env self s = (Inl e, s')"
      and t: "try_except (status_body env self) status_except s = status_except e s'"
    from b have "is_Exception e" by (rule assms)
    from status_except_eq [OF this, of s'] obtain msg where
      "status_except e s' = (Inr \<lparr>StatusResponse.balance = 0, error_message = Some msg\<rparr>, s')"
      by blast
    with t show ?thesis by (simp add: status_def)
  qed
qed

lemma status_body_raises:
  fixes env :: "'w env"
  assumes "raises_only_Exception env" and "status_body env self s = (Inl e, s1)"
  shows "is_Exception e"
  using assms(2)
  unfolding status_body_def bnd_def await_def ret_def Let_def
  by (auto split: prod.splits sum.splits if_splits
      dest: only_Exception_get_info [OF assms(1)] only_Exception_get_balance [OF assms(1)]
            only_Exception_from_sats [OF assms(1)])

lemma status_total:
  fixes env :: "'w env"
  assumes "raises_only_Exception env"
  shows "\<exists>r s'. status env self s = (Inr r, s')"
  by (rule status_caught) (rule status_body_raises [OF assms])

lemma status_mismatch:
  fixes env :: "'w env"
  assumes "client_get_info env (client self) w = (Inr info, w1)"
      and "\<not> {''get_info'', ''get_balance'', ''make_invoice'', ''pay_invoice'', ''lookup_invoice''}
             \<subseteq> set (methods info)"
  shows "\<exists>msg. status env self (w, tr) =
           (Inr \<lparr>StatusResponse.balance = 0, error_message = Some msg\<rparr>, (w1, tr @ [GetInfo]))"
proof -
  from assms(1) have "await GetInfo (client_get_info env (client self)) (w, tr)
      = (Inr info, (w1, tr @ [GetInfo]))"
    by (rule await_eq)
  with assms(2) have "\<exists>msg. status_body env self (w, tr) =
        (Inr \<lparr>StatusResponse.balance = 0, error_message = Some msg\<rparr>, (w1, tr @ [GetInfo]))"
    by (simp add: status_body_def bnd_Inr required_methods_iff ret_def)
  then show ?thesis
    by (auto simp add: status_def try_except_Inr)
qed

lemma status_supported_body:
  fixes env :: "'w env"
  assumes "client_get_info env (client self) w = (Inr info, w1)"
      and "{''get_info'', ''get_balance'', ''make_invoice'', ''pay_invoice'', ''lookup_invoice''}
             \<subseteq> set (methods info)"
  shows "status_body env self (w, tr) =
           bnd (await GetBalance (client_get_balance env (client self))) (\<lambda>res.
             bnd (await (FromSats (Nip47GetBalanceResponse.balance res div 1000) (NWCWallet.unit self))
                    (fx_from_sats env (Nip47GetBalanceResponse.balance res div 1000)
                       (NWCWallet.unit self))) (\<lambda>b.
               ret \<lparr>StatusResponse.balance = b, error_message = None\<rparr>)) (w1, tr @ [GetInfo])"
proof -
  from assms(1) have "await GetInfo (client_get_info env (client self)) (w, tr)
      = (Inr info, (w1, tr @ [GetInfo]))"
    by (rule await_eq)
  with assms(2) show ?thesis
    by (simp add: status_body_def bnd_Inr required_methods_iff Let_def)
qed

lemma try_except_trace:
  assumes "\<And>e s'. snd (snd (h e s')) = snd s'"
  shows "snd (snd (try_except m h s)) = snd (snd (m s))"
proof -
  obtain r s' where "m s = (r, s')" by (cases "m s") auto
  then show ?thesis using assms by (cases r) (simp_all add: try_except_def)
qed

lemma status_except_trace: "snd (snd (status_except e s)) = snd s"
  by (cases e) (simp_all add: status_except_def ret_def raise_def)

lemma status_supported_calls:
  fixes env :: "'w env"
  assumes "client_get_info env (client self) w = (Inr info, w1)"
      and "{''get_info'', ''get_balance'', ''make_invoice'', ''pay_invoice'', ''lookup_invoice''}
             \<subseteq> set (methods info)"
  shows "\<exists>rest. snd (snd (status env self (w, tr))) = tr @ [GetInfo, GetBalance] @ rest"
proof -
  have tr: "snd (snd (status env self (w, tr))) = snd (snd (status_body env self (w, tr)))"
    unfolding status_def by (rule try_except_trace) (rule status_except_trace)
  obtain r w2 where gb: "client_get_balance env (client self) w1 = (r, w2)"
    by (cases "client_get_balance env (client self) w1")
  then have aw: "await GetBalance (client_get_balance env (client self)) (w1, tr @ [GetInfo])
      = (r, (w2, (tr @ [GetInfo]) @ [GetBalance]))"
    by (rule await_eq)
  show ?thesis
  proof (cases r)
    case (Inl e)
    with aw show ?thesis
      by (simp add: tr status_supported_body [OF assms] bnd_Inl)
  next
    case (Inr res)
    obtain r' w3 where fs: "fx_from_sats env (Nip47GetBalanceResponse.balance res div 1000)
        (NWCWallet.unit self) w2 = (r', w3)"
      by (cases "fx_from_sats env (Nip47GetBalanceResponse.balance res div 1000)
        (NWCWallet.unit self) w2")
    from fs have aw2: "await (FromSats (Nip47GetBalanceResponse.balance res div 1000) (NWCWallet.unit self))
        (fx_from_sats env (Nip47GetBalanceResponse.balance res div 1000) (NWCWallet.unit self))
        (w2, tr @ [GetInfo, GetBalance])
      = (r', (w3, (tr @ [GetInfo, GetBalance]) @ [FromSats (Nip47GetBalanceResponse.balance res div 1000) (NWCWallet.unit self)]))"
      by (rule await_eq)
    from Inr aw aw2 show ?thesis
      by (cases r') (simp_all add: tr status_supported_body [OF assms] bnd_Inr bnd_Inl ret_def)
  qed
qed

lemma status_success:
  fixes env :: "'w env"
  assumes "client_get_info env (client self) w = (Inr info, w1)"
      and "{''get_info'', ''get_balance'', ''make_invoice'', ''pay_invoice'', ''lookup_invoice''}
             \<subseteq> set (methods info)"
      and gb: "client_get_balance env (client self) w1 = (Inr res, w2)"
      and fs: "fx_from_sats env (Nip47GetBalanceResponse.balance res div 1000) (NWCWallet.unit self) w2
             = (Inr b, w3)"
  shows "status env self (w, tr) =
           (Inr \<lparr>StatusResponse.balance = b, error_message = None\<rparr>,
            (w3, tr @ [GetInfo, GetBalance,
                       FromSats (Nip47GetBalanceResponse.balance res div 1000) (NWCWallet.unit self)]))"
proof -
  from gb have aw: "await GetBalance (client_get_balance env (client self)) (w1, tr @ [GetInfo])
      = (Inr res, (w2, (tr @ [GetInfo]) @ [GetBalance]))"
    by (rule await_eq)
  from fs have aw2: "await (FromSats (Nip47GetBalanceResponse.balance res div 1000) (NWCWallet.unit self))
        (fx_from_sats env (Nip47GetBalanceResponse.balance res div 1000) (NWCWallet.unit self))
        (w2, tr @ [GetInfo, GetBalance])
      = (Inr b, (w3, (tr @ [GetInfo, GetBalance]) @ [FromSats (Nip47GetBalanceResponse.balance res div 1000) (NWCWallet.unit self)]))"
    by (rule await_eq)
  from aw aw2 have "status_body env self (w, tr) =
           (Inr \<lparr>StatusResponse.balance = b, error_message = None\<rparr>,
            (w3, tr @ [GetInfo, GetBalance,
                       FromSats (Nip47GetBalanceResponse.balance res div 1000) (NWCWallet.unit self)]))"
    by (simp add: status_supported_body [OF assms(1,2)] bnd_Inr ret_def)
  then show ?thesis by (simp add: status_def try_except_Inr)
qed

lemma status_get_info_fails:
  fixes env :: "'w env"
  assumes "client_get_info env (client self) w = (Inl e, w1)"
  shows "status env self (w, tr) = status_except e (w1, tr @ [GetInfo])"
proof -
  from assms have "await GetInfo (client_get_info env (client self)) (w, tr)
      = (Inl e, (w1, tr @ [GetInfo]))"
    by (rule await_eq)
  then have "status_body env self (w, tr) = (Inl e, (w1, tr @ [GetInfo]))"
    by (simp add: status_body_def bnd_Inl)
  then show ?thesis by (simp add: status_def try_except_Inl)
qed

lemma status_get_balance_fails:
  fixes env :: "'w env"
  assumes "client_get_info env (client self) w = (Inr info, w1)"
      and "{''get_info'', ''get_balance'', ''make_invoice'', ''pay_invoice'', ''lookup_invoice''}
             \<subseteq> set (methods info)"
      and gb: "client_get_balance env (client self) w1 = (Inl e, w2)"
  shows "status env self (w, tr) = status_except e (w2, tr @ [GetInfo, GetBalance])"
proof -
  from gb have aw: "await GetBalance (client_get_balance env (client self)) (w1, tr @ [GetInfo])
      = (Inl e, (w2, (tr @ [GetInfo]) @ [GetBalance]))"
    by (rule await_eq)
  then have "status_body env self (w, tr) = (Inl e, (w2, tr @ [GetInfo, GetBalance]))"
    by (simp add: status_supported_body [OF assms(1,2)] bnd_Inl)
  then show ?thesis by (simp add: status_def try_except_Inl)
qed

lemma status_from_sats_fails:
  fixes env :: "'w env"
  assumes "client_get_info env (client self) w = (Inr info, w1)"
      and "{''get_info'', ''get_balance'', ''make_invoice'', ''pay_invoice'', ''lookup_invoice''}
             \<subseteq> set (methods info)"
      and gb: "client_get_balance env (client self) w1 = (Inr res, w2)"
      and fs: "fx_from_sats env (Nip47GetBalanceResponse.balance res div 1000) (NWCWallet.unit self) w2
             = (Inl e, w3)"
  shows "status env self (w, tr) =
           status_except e
             (w3, tr @ [GetInfo, GetBalance,
                        FromSats (Nip47GetBalanceResponse.balance res div 1000) (NWCWallet.unit self)])"
proof -
  from gb have aw: "await GetBalance (client_get_balance env (client self)) (w1, tr @ [GetInfo])
      = (Inr res, (w2, (tr @ [GetInfo]) @ [GetBalance]))"
    by (rule await_eq)
  from fs have aw2: "await (FromSats (Nip47GetBalanceResponse.balance res div 1000) (NWCWallet.unit self))
        (fx_from_sats env (Nip47GetBalanceResponse.balance res div 1000) (NWCWallet.unit self))
        (w2, tr @ [GetInfo, GetBalance])
      = (Inl e, (w3, (tr @ [GetInfo, GetBalance]) @ [FromSats (Nip47GetBalanceResponse.balance res div 1000) (NWCWallet.unit self)]))"
    by (rule await_eq)
  from aw aw2 have "status_body env self (w, tr) =
      (Inl e, (w3, tr @ [GetInfo, GetBalance,
                 FromSats (Nip47GetBalanceResponse.balance res div 1000) (NWCWallet.unit self)]))"
    by (simp add: status_supported_body [OF assms(1,2)] bnd_Inr bnd_Inl)
  then show ?thesis by (simp add: status_def try_except_Inl)
qed

text \<open>
  Claim C3. When \<open>get_info\<close> answers with a method set that lacks one of \<open>get_info\<close>,
  \<open>get_balance\<close>, \<open>make_invoice\<close>, \<open>pay_invoice\<close>, \<open>lookup_invoice\<close>, \<open>status\<close> returns
  balance 0 with an error message, and \<open>get_info\<close> is the only call it has made: the
  balance is not queried. When all five are reported, the next call is \<open>get_balance\<close>, and
  if it answers \<open>balance_msat\<close> and the rate provider converts
  \<open>balance_msat div 1000\<close> satoshis to \<open>b\<close>, the result is the balance \<open>b\<close> with no error
  message.
\<close>

theorem status_capability_check:
  fixes env :: "'w env"
  assumes "client_get_info env (client self) w = (Inr info, w1)"
  shows "(\<not> {''get_info'', ''get_balance'', ''make_invoice'', ''pay_invoice'', ''lookup_invoice''}
             \<subseteq> set (methods info) \<longrightarrow>
           (\<exists>msg. status env self (w, tr) =
              (Inr \<lparr>StatusResponse.balance = 0, error_message = Some msg\<rparr>, (w1, tr @ [GetInfo]))))
       \<and> ({''get_info'', ''get_balance'', ''make_invoice'', ''pay_invoice'', ''lookup_invoice''}
             \<subseteq> set (methods info) \<longrightarrow>
           (\<exists>rest. snd (snd (status env self (w, tr))) = tr @ [GetInfo, GetBalance] @ rest)
           \<and> (\<forall>res w2 b w3.
                 client_get_balance env (client self) w1 = (Inr res, w2) \<longrightarrow>
                 fx_from_sats env (Nip47GetBalanceResponse.balance res div 1000)
                   (NWCWallet.unit self) w2 = (Inr b, w3) \<longrightarrow>
                 status env self (w, tr) =
                   (Inr \<lparr>StatusResponse.balance = b, error_message = None\<rparr>,
                    (w3, tr @ [GetInfo, GetBalance,
                               FromSats (Nip47GetBalanceResponse.balance res div 1000)
                                 (NWCWallet.unit self)]))))"
proof (intro conjI impI allI)
  assume "\<not> {''get_info'', ''get_balance'', ''make_invoice'', ''pay_invoice'', ''lookup_invoice''}
             \<subseteq> set (methods info)"
  then show "\<exists>msg. status env self (w, tr) =
      (Inr \<lparr>StatusResponse.balance = 0, error_message = Some msg\<rparr>, (w1, tr @ [GetInfo]))"
    by (rule status_mismatch [OF assms])
next
  assume "{''get_info'', ''get_balance'', ''make_invoice'', ''pay_invoice'', ''lookup_invoice''}
             \<subseteq> set (methods info)"
  then show "\<exists>rest. snd (snd (status env self (w, tr))) = tr @ [GetInfo, GetBalance] @ rest"
    by (rule status_supported_calls [OF assms])
next
  fix res w2 b w3
  assume "{''get_info'', ''get_balance'', ''make_invoice'', ''pay_invoice'', ''lookup_invoice''}
             \<subseteq> set (methods info)"
    and "client_get_balance env (client self) w1 = (Inr res, w2)"
    and "fx_from_sats env (Nip47GetBalanceResponse.balance res div 1000)
                   (NWCWallet.unit self) w2 = (Inr b, w3)"
  then show "status env self (w, tr) =
                   (Inr \<lparr>StatusResponse.balance = b, error_message = None\<rparr>,
                    (w3, tr @ [GetInfo, GetBalance,
                               FromSats (Nip47GetBalanceResponse.balance res div 1000)
                                 (NWCWallet.unit self)]))"
    by (rule status_success [OF assms])
qed

theorem status_capability_check_witness:
  "status demo_env_no_pay demo_wallet ((), []) =
     (Inr \<lparr>StatusResponse.balance = 0,
           error_message = Some (''NWC does not support all required methods. Supports: ''
             @ ''['' @ [CHR 0x27] @ ''get_info'' @ [CHR 0x27] @ '', ''
             @ [CHR 0x27] @ ''get_balance'' @ [CHR 0x27] @ '', ''
             @ [CHR 0x27] @ ''make_invoice'' @ [CHR 0x27] @ '', ''
             @ [CHR 0x27] @ ''lookup_invoice'' @ [CHR 0x27] @ '']'')\<rparr>, ((), [GetInfo]))
   \<and> status demo_env demo_wallet ((), []) =
       (Inr \<lparr>StatusResponse.balance = 12345, error_message = None\<rparr>,
        ((), [GetInfo, GetBalance, FromSats 12345 sat]))"
proof -
  have i1: "client_get_info demo_env_no_pay (client demo_wallet) ()
      = (Inr \<lparr>methods = [''get_info'', ''get_balance'', ''make_invoice'', ''lookup_invoice'']\<rparr>, ())"
    by (simp add: demo_env_no_pay_def demo_env_def)
  have i2: "client_get_info demo_env (client demo_wallet) ()
      = (Inr \<lparr>methods = required_nip47_methods\<rparr>, ())"
    by (simp add: demo_env_def)
  have b: "client_get_balance demo_env (client demo_wallet) ()
      = (Inr \<lparr>Nip47GetBalanceResponse.balance = 12345678\<rparr>, ())"
    by (simp add: demo_env_def)
  have f: "fx_from_sats demo_env (12345678 div 1000) (NWCWallet.unit demo_wallet) () = (Inr 12345, ())"
    by (simp add: demo_env_def)
  from status_capability_check [OF i1, of "[]"]
  have "\<exists>msg. status demo_env_no_pay demo_wallet ((), []) =
      (Inr \<lparr>StatusResponse.balance = 0, error_message = Some msg\<rparr>, ((), [GetInfo]))"
    by simp
  then have p1: "status demo_env_no_pay demo_wallet ((), []) =
     (Inr \<lparr>StatusResponse.balance = 0,
           error_message = Some (''NWC does not support all required methods. Supports: ''
             @ ''['' @ [CHR 0x27] @ ''get_info'' @ [CHR 0x27] @ '', ''
             @ [CHR 0x27] @ ''get_balance'' @ [CHR 0x27] @ '', ''
             @ [CHR 0x27] @ ''make_invoice'' @ [CHR 0x27] @ '', ''
             @ [CHR 0x27] @ ''lookup_invoice'' @ [CHR 0x27] @ '']'')\<rparr>, ((), [GetInfo]))"
    by (simp add: status_def status_body_def try_except_def bnd_def await_def ret_def
        demo_env_no_pay_def demo_env_def demo_wallet_def required_nip47_methods_def repr_methods_def)
  from status_capability_check [OF i2, of "[]"] b f
  have p2: "status demo_env demo_wallet ((), []) =
       (Inr \<lparr>StatusResponse.balance = 12345, error_message = None\<rparr>,
        ((), [GetInfo, GetBalance, FromSats 12345 sat]))"
    by (simp add: required_nip47_methods_def demo_wallet_def)
  from p1 p2 show ?thesis by simp
qed

subsection \<open>\<open>create_invoice\<close>\<close>

lemma create_invoice_except_eq:
  "is_Exception e \<Longrightarrow>
     \<exists>msg. create_invoice_except e s =
       (Inr \<lparr>InvoiceResponse.ok = False, checking_id = None, payment_request = None,
             error_message = Some msg\<rparr>, s)"
  by (cases e) (simp_all add: create_invoice_except_def ret_def)

lemma create_invoice_except_trace: "snd (snd (create_invoice_except e s)) = snd s"
  by (cases e) (simp_all add: create_invoice_except_def ret_def raise_def)

lemma create_invoice_body_raises:
  fixes env :: "'w env"
  assumes "raises_only_Exception env" and "create_invoice_body env self amt s = (Inl e, s1)"
  shows "is_Exception e"
  using assms(2)
  unfolding create_invoice_body_def amt_to_sat_def bnd_def await_def ret_def
  by (auto split: prod.splits sum.splits
      dest: only_Exception_to_sats [OF assms(1)] only_Exception_create_invoice [OF assms(1)])

lemma create_invoice_total:
  fixes env :: "'w env"
  assumes "raises_only_Exception env"
  shows "\<exists>r s'. create_invoice env self amt memo dh ud s = (Inr r, s')"
proof -
  from try_except_cases [of "create_invoice_body env self amt" s create_invoice_except]
  show ?thesis
  proof (elim disjE exE conjE)
    fix v s' assume "create_invoice_body env self amt s = (Inr v, s')"
      and "try_except (create_invoice_body env self amt) create_invoice_except s = (Inr v, s')"
    then show ?thesis by (simp add: create_invoice_def)
  next
    fix e s' assume b: "create_invoice_body env self amt s = (Inl e, s')"
      and t: "try_except (create_invoice_body env self amt) create_invoice_except s
                = create_invoice_except e s'"
    from assms b have "is_Exception e" by (rule create_invoice_body_raises)
    from create_invoice_except_eq [OF this, of s'] t show ?thesis
      by (auto simp add: create_invoice_def)
  qed
qed

lemma create_invoice_to_sats_fails:
  fixes env :: "'w env"
  assumes ts: "fx_to_sats env (Amount.amount amt) (NWCWallet.unit self) w = (Inl e, w1)"
  shows "create_invoice env self amt memo dh ud (w, tr) =
           create_invoice_except e (w1, tr @ [ToSats (Amount.amount amt) (NWCWallet.unit self)])"
proof -
  from ts have "amt_to_sat env self (Amount.amount amt) (w, tr)
      = (Inl e, (w1, tr @ [ToSats (Amount.amount amt) (NWCWallet.unit self)]))"
    unfolding amt_to_sat_def by (rule await_eq)
  then have "create_invoice_body env self amt (w, tr)
      = (Inl e, (w1, tr @ [ToSats (Amount.amount amt) (NWCWallet.unit self)]))"
    by (simp add: create_invoice_body_def bnd_Inl)
  then show ?thesis by (simp add: create_invoice_def try_except_Inl)
qed

lemma create_invoice_request_fails:
  fixes env :: "'w env"
  assumes ts: "fx_to_sats env (Amount.amount amt) (NWCWallet.unit self) w = (Inr amount_sat, w1)"
      and ci: "client_create_invoice env (client self)
                 \<lparr>Nip47MakeInvoiceRequest.amount = amount_sat * 1000\<rparr> w1 = (Inl e, w2)"
  shows "create_invoice env self amt memo dh ud (w, tr) =
           create_invoice_except e
             (w2, tr @ [ToSats (Amount.amount amt) (NWCWallet.unit self),
                        MakeInvoice \<lparr>Nip47MakeInvoiceRequest.amount = amount_sat * 1000\<rparr>])"
proof -
  from ts have a1: "amt_to_sat env self (Amount.amount amt) (w, tr)
      = (Inr amount_sat, (w1, tr @ [ToSats (Amount.amount amt) (NWCWallet.unit self)]))"
    unfolding amt_to_sat_def by (rule await_eq)
  from ci have a2: "await (MakeInvoice \<lparr>Nip47MakeInvoiceRequest.amount = amount_sat * 1000\<rparr>)
      (client_create_invoice env (client self) \<lparr>Nip47MakeInvoiceRequest.amount = amount_sat * 1000\<rparr>)
      (w1, tr @ [ToSats (Amount.amount amt) (NWCWallet.unit self)])
     = (Inl e, (w2, (tr @ [ToSats (Amount.amount amt) (NWCWallet.unit self)])
                 @ [MakeInvoice \<lparr>Nip47MakeInvoiceRequest.amount = amount_sat * 1000\<rparr>]))"
    by (rule await_eq)
  from a1 a2 have "create_invoice_body env self amt (w, tr) =
      (Inl e, (w2, tr @ [ToSats (Amount.amount amt) (NWCWallet.unit self),
                 MakeInvoice \<lparr>Nip47MakeInvoiceRequest.amount = amount_sat * 1000\<rparr>]))"
    by (simp add: create_invoice_body_def bnd_Inr bnd_Inl)
  then show ?thesis by (simp add: create_invoice_def try_except_Inl)
qed

lemma create_invoice_calls:
  fixes env :: "'w env"
  assumes ts: "fx_to_sats env (Amount.amount amt) (NWCWallet.unit self) w = (Inr amount_sat, w1)"
  shows "snd (snd (create_invoice env self amt memo dh ud (w, tr))) =
           tr @ [ToSats (Amount.amount amt) (NWCWallet.unit self),
                 MakeInvoice \<lparr>Nip47MakeInvoiceRequest.amount = amount_sat * 1000\<rparr>]"
proof -
  have tr: "snd (snd (create_invoice env self amt memo dh ud (w, tr)))
      = snd (snd (create_invoice_body env self amt (w, tr)))"
    unfolding create_invoice_def
    by (rule try_except_trace) (rule create_invoice_except_trace)
  from ts have a1: "amt_to_sat env self (Amount.amount amt) (w, tr)
      = (Inr amount_sat, (w1, tr @ [ToSats (Amount.amount amt) (NWCWallet.unit self)]))"
    unfolding amt_to_sat_def by (rule await_eq)
  obtain r w2 where ci: "client_create_invoice env (client self)
      \<lparr>Nip47MakeInvoiceRequest.amount = amount_sat * 1000\<rparr> w1 = (r, w2)"
    by (cases "client_create_invoice env (client self)
      \<lparr>Nip47MakeInvoiceRequest.amount = amount_sat * 1000\<rparr> w1")
  from ci have a2: "await (MakeInvoice \<lparr>Nip47MakeInvoiceRequest.amount = amount_sat * 1000\<rparr>)
      (client_create_invoice env (client self) \<lparr>Nip47MakeInvoiceRequest.amount = amount_sat * 1000\<rparr>)
      (w1, tr @ [ToSats (Amount.amount amt) (NWCWallet.unit self)])
     = (r, (w2, (tr @ [ToSats (Amount.amount amt) (NWCWallet.unit self)])
                 @ [MakeInvoice \<lparr>Nip47MakeInvoiceRequest.amount = amount_sat * 1000\<rparr>]))"
    by (rule await_eq)
  from a1 a2 show ?thesis
    by (cases r) (simp_all add: tr create_invoice_body_def bnd_Inr bnd_Inl ret_def)
qed

lemma create_invoice_ok:
  fixes env :: "'w env"
  assumes ts: "fx_to_sats env (Amount.amount amt) (NWCWallet.unit self) w = (Inr amount_sat, w1)"
      and ci: "client_create_invoice env (client self)
                 \<lparr>Nip47MakeInvoiceRequest.amount = amount_sat * 1000\<rparr> w1 = (Inr res, w2)"
  shows "create_invoice env self amt memo dh ud (w, tr) =
           (Inr \<lparr>InvoiceResponse.ok = True,
                 checking_id = Some (Nip47Transaction.payment_hash res),
                 payment_request = Some (Nip47Transaction.invoice res),
                 error_message = None\<rparr>,
            (w2, tr @ [ToSats (Amount.amount amt) (NWCWallet.unit self),
                       MakeInvoice \<lparr>Nip47MakeInvoiceRequest.amount = amount_sat * 1000\<rparr>]))"
proof -
  from ts have a1: "amt_to_sat env self (Amount.amount amt) (w, tr)
      = (Inr amount_sat, (w1, tr @ [ToSats (Amount.amount amt) (NWCWallet.unit self)]))"
    unfolding amt_to_sat_def by (rule await_eq)
  from ci have a2: "await (MakeInvoice \<lparr>Nip47MakeInvoiceRequest.amount = amount_sat * 1000\<rparr>)
      (client_create_invoice env (client self) \<lparr>Nip47MakeInvoiceRequest.amount = amount_sat * 1000\<rparr>)
      (w1, tr @ [ToSats (Amount.amount amt) (NWCWallet.unit self)])
     = (Inr res, (w2, (tr @ [ToSats (Amount.amount amt) (NWCWallet.unit self)])
                 @ [MakeInvoice \<lparr>Nip47MakeInvoiceRequest.amount = amount_sat * 1000\<rparr>]))"
    by (rule await_eq)
  from a1 a2 have "create_invoice_body env self amt (w, tr) =
           (Inr \<lparr>InvoiceResponse.ok = True,
                 checking_id = Some (Nip47Transaction.payment_hash res),
                 payment_request = Some (Nip47Transaction.invoice res),
                 error_message = None\<rparr>,
            (w2, tr @ [ToSats (Amount.amount amt) (NWCWallet.unit self),
                       MakeInvoice \<lparr>Nip47MakeInvoiceRequest.amount = amount_sat * 1000\<rparr>]))"
    by (simp add: create_invoice_body_def bnd_Inr ret_def)
  then show ?thesis by (simp add: create_invoice_def try_except_Inr)
qed

text \<open>
  Claim C7. When the rate provider converts the amount to \<open>amount_sat\<close> satoshis,
  \<open>create_invoice\<close> asks the protocol client for an invoice of exactly
  \<open>amount_sat * 1000\<close> millisatoshis, and when that request succeeds the result is
  \<open>ok = True\<close> with the returned payment hash as \<open>checking_id\<close> and the returned invoice
  string as \<open>payment_request\<close>.
\<close>

theorem create_invoice_success:
  fixes env :: "'w env"
  assumes "fx_to_sats env (Amount.amount amt) (NWCWallet.unit self) w = (Inr amount_sat, w1)"
  shows "snd (snd (create_invoice env self amt memo description_hash unhashed_description (w, tr))) =
           tr @ [ToSats (Amount.amount amt) (NWCWallet.unit self),
                 MakeInvoice \<lparr>Nip47MakeInvoiceRequest.amount = amount_sat * 1000\<rparr>]
       \<and> (\<forall>res w2.
             client_create_invoice env (client self)
               \<lparr>Nip47MakeInvoiceRequest.amount = amount_sat * 1000\<rparr> w1 = (Inr res, w2) \<longrightarrow>
             create_invoice env self amt memo description_hash unhashed_description (w, tr) =
               (Inr \<lparr>InvoiceResponse.ok = True,
                     checking_id = Some (Nip47Transaction.payment_hash res),
                     payment_request = Some (Nip47Transaction.invoice res),
                     error_message = None\<rparr>,
                (w2, tr @ [ToSats (Amount.amount amt) (NWCWallet.unit self),
                           MakeInvoice \<lparr>Nip47MakeInvoiceRequest.amount = amount_sat * 1000\<rparr>])))"
proof (intro conjI allI impI)
  show "snd (snd (create_invoice env self amt memo description_hash unhashed_description (w, tr))) =
           tr @ [ToSats (Amount.amount amt) (NWCWallet.unit self),
                 MakeInvoice \<lparr>Nip47MakeInvoiceRequest.amount = amount_sat * 1000\<rparr>]"
    by (rule create_invoice_calls [OF assms])
next
  fix res w2
  assume "client_create_invoice env (client self)
               \<lparr>Nip47MakeInvoiceRequest.amount = amount_sat * 1000\<rparr> w1 = (Inr res, w2)"
  then show "create_invoice env self amt memo description_hash unhashed_description (w, tr) =
               (Inr \<lparr>InvoiceResponse.ok = True,
                     checking_id = Some (Nip47Transaction.payment_hash res),
                     payment_request = Some (Nip47Transaction.invoice res),
                     error_message = None\<rparr>,
                (w2, tr @ [ToSats (Amount.amount amt) (NWCWallet.unit self),
                           MakeInvoice \<lparr>Nip47MakeInvoiceRequest.amount = amount_sat * 1000\<rparr>]))"
    by (rule create_invoice_ok [OF assms])
qed

theorem create_invoice_success_witness:
  "create_invoice demo_env demo_wallet \<lparr>Amount.unit = sat, amount = 1000\<rparr> None None None ((), []) =
     (Inr \<lparr>InvoiceResponse.ok = True, checking_id = Some ''ab12'',
           payment_request = Some ''lnbc2505n1demo'', error_message = None\<rparr>,
      ((), [ToSats 1000 sat, MakeInvoice \<lparr>Nip47MakeInvoiceRequest.amount = 1000000\<rparr>]))"
proof -
  have ts: "fx_to_sats demo_env (Amount.amount \<lparr>Amount.unit = sat, amount = 1000\<rparr>)
      (NWCWallet.unit demo_wallet) () = (Inr 1000, ())"
    by (simp add: demo_env_def)
  have ci: "client_create_invoice demo_env (client demo_wallet)
      \<lparr>Nip47MakeInvoiceRequest.amount = 1000 * 1000\<rparr> () = (Inr demo_transaction, ())"
    by (simp add: demo_env_def)
  from create_invoice_success [OF ts, of None None None "[]"] ci
  show ?thesis
    by (simp add: demo_transaction_def demo_wallet_def)
qed

subsection \<open>\<open>pay_invoice\<close>\<close>

lemma pay_invoice_except_eq:
  "is_Exception e \<Longrightarrow>
     \<exists>msg. pay_invoice_except e s =
       (Inr \<lparr>PaymentResponse.ok = False, checking_id = None, fee = None, preimage = None,
             error_message = Some msg\<rparr>, s)"
  by (cases e) (simp_all add: pay_invoice_except_def ret_def)

lemma pay_invoice_except_reraise: "\<not> is_Exception e \<Longrightarrow> pay_invoice_except e s = (Inl e, s)"
  by (cases e) (simp_all add: pay_invoice_except_def raise_def)

lemma pay_invoice_except_trace: "snd (snd (pay_invoice_except e s)) = snd s"
  by (cases e) (simp_all add: pay_invoice_except_def ret_def raise_def)

lemma pay_invoice_fees_eq:
  fixes env :: "'w env"
  shows "pay_invoice_fees env self quote (w, tr) =
     (case client_lookup_invoice env (client self)
             \<lparr>Nip47LookupInvoiceRequest.payment_hash = MeltQuote.checking_id quote\<rparr> w of
        (Inl e, w') \<Rightarrow>
          (if is_Exception e then Inr 0 else Inl e,
           (w', tr @ [LookupInvoice \<lparr>Nip47LookupInvoiceRequest.payment_hash =
                                       MeltQuote.checking_id quote\<rparr>]))
      | (Inr tx, w') \<Rightarrow>
          (Inr (fees_paid tx div 1000),
           (w', tr @ [LookupInvoice \<lparr>Nip47LookupInvoiceRequest.payment_hash =
                                       MeltQuote.checking_id quote\<rparr>])))"
  by (simp add: pay_invoice_fees_def try_except_def bnd_def await_def ret_def raise_def
      split: prod.splits sum.splits)

lemma pay_invoice_fees_cases:
  fixes env :: "'w env"
  shows "\<exists>r w2. pay_invoice_fees env self quote (w, tr) =
           (r, (w2, tr @ [LookupInvoice \<lparr>Nip47LookupInvoiceRequest.payment_hash =
                                          MeltQuote.checking_id quote\<rparr>]))
         \<and> (\<forall>e. r = Inl e \<longrightarrow> \<not> is_Exception e)"
proof -
  obtain r w' where l: "client_lookup_invoice env (client self)
      \<lparr>Nip47LookupInvoiceRequest.payment_hash = MeltQuote.checking_id quote\<rparr> w = (r, w')"
    by (cases "client_lookup_invoice env (client self)
      \<lparr>Nip47LookupInvoiceRequest.payment_hash = MeltQuote.checking_id quote\<rparr> w")
  then show ?thesis by (cases r) (simp_all add: pay_invoice_fees_eq)
qed

lemma pay_invoice_paid:
  fixes env :: "'w env"
  assumes pay: "client_pay_invoice env (client self)
                  \<lparr>Nip47PayInvoiceRequest.invoice = MeltQuote.request quote\<rparr> w = (Inr pres, w1)"
      and fees: "pay_invoice_fees env self quote
                   (w1, tr @ [PayInvoice \<lparr>Nip47PayInvoiceRequest.invoice = MeltQuote.request quote\<rparr>])
                 = (Inr f, (w2, tr2))"
  shows "pay_invoice env self quote fl (w, tr) =
     (if f > 0
      then (case fx_from_sats env f (NWCWallet.unit self) w2 of
              (Inl e, w3) \<Rightarrow> pay_invoice_except e (w3, tr2 @ [FromSats f (NWCWallet.unit self)])
            | (Inr c, w3) \<Rightarrow>
                (Inr \<lparr>PaymentResponse.ok = True, checking_id = None,
                      fee = Some \<lparr>Amount.unit = NWCWallet.unit self, amount = c\<rparr>,
                      preimage = Some (Nip47PayResponse.preimage pres),
                      error_message = None\<rparr>,
                 (w3, tr2 @ [FromSats f (NWCWallet.unit self)])))
      else (Inr \<lparr>PaymentResponse.ok = True, checking_id = None,
                 fee = Some \<lparr>Amount.unit = NWCWallet.unit self, amount = f\<rparr>,
                 preimage = Some (Nip47PayResponse.preimage pres),
                 error_message = None\<rparr>, (w2, tr2)))"
proof -
  from pay have a: "await (PayInvoice \<lparr>Nip47PayInvoiceRequest.invoice = MeltQuote.request quote\<rparr>)
      (client_pay_invoice env (client self)
         \<lparr>Nip47PayInvoiceRequest.invoice = MeltQuote.request quote\<rparr>) (w, tr)
      = (Inr pres, (w1, tr @ [PayInvoice \<lparr>Nip47PayInvoiceRequest.invoice = MeltQuote.request quote\<rparr>]))"
    by (rule await_eq)
  show ?thesis
  proof (cases "f > 0")
    case False
    with a fees show ?thesis
      by (simp add: pay_invoice_def pay_invoice_body_def try_except_def bnd_Inr ret_def)
  next
    case True
    obtain r w3 where fs: "fx_from_sats env f (NWCWallet.unit self) w2 = (r, w3)"
      by (cases "fx_from_sats env f (NWCWallet.unit self) w2")
    then have b: "await (FromSats f (NWCWallet.unit self)) (fx_from_sats env f (NWCWallet.unit self))
        (w2, tr2) = (r, (w3, tr2 @ [FromSats f (NWCWallet.unit self)]))"
      by (rule await_eq)
    from True a fees b fs show ?thesis
      by (cases r)
         (simp_all add: pay_invoice_def pay_invoice_body_def try_except_def bnd_Inr bnd_Inl ret_def)
  qed
qed

lemma pay_invoice_pay_fails:
  fixes env :: "'w env"
  assumes pay: "client_pay_invoice env (client self)
                  \<lparr>Nip47PayInvoiceRequest.invoice = MeltQuote.request quote\<rparr> w = (Inl e, w1)"
  shows "pay_invoice env self quote fl (w, tr) =
           pay_invoice_except e
             (w1, tr @ [PayInvoice \<lparr>Nip47PayInvoiceRequest.invoice = MeltQuote.request quote\<rparr>])"
proof -
  from pay have "await (PayInvoice \<lparr>Nip47PayInvoiceRequest.invoice = MeltQuote.request quote\<rparr>)
      (client_pay_invoice env (client self)
         \<lparr>Nip47PayInvoiceRequest.invoice = MeltQuote.request quote\<rparr>) (w, tr)
      = (Inl e, (w1, tr @ [PayInvoice \<lparr>Nip47PayInvoiceRequest.invoice = MeltQuote.request quote\<rparr>]))"
    by (rule await_eq)
  then show ?thesis
    by (simp add: pay_invoice_def pay_invoice_body_def try_except_def bnd_Inl)
qed

lemma pay_invoice_lookup_cancelled:
  fixes env :: "'w env"
  assumes pay: "client_pay_invoice env (client self)
                  \<lparr>Nip47PayInvoiceRequest.invoice = MeltQuote.request quote\<rparr> w = (Inr pres, w1)"
      and fees: "pay_invoice_fees env self quote
                   (w1, tr @ [PayInvoice \<lparr>Nip47PayInvoiceRequest.invoice = MeltQuote.request quote\<rparr>])
                 = (Inl e, s2)"
  shows "pay_invoice env self quote fl (w, tr) = pay_invoice_except e s2"
proof -
  from pay have a: "await (PayInvoice \<lparr>Nip47PayInvoiceRequest.invoice = MeltQuote.request quote\<rparr>)
      (client_pay_invoice env (client self)
         \<lparr>Nip47PayInvoiceRequest.invoice = MeltQuote.request quote\<rparr>) (w, tr)
      = (Inr pres, (w1, tr @ [PayInvoice \<lparr>Nip47PayInvoiceRequest.invoice = MeltQuote.request quote\<rparr>]))"
    by (rule await_eq)
  with fees show ?thesis
    by (simp add: pay_invoice_def pay_invoice_body_def try_except_def bnd_Inr bnd_Inl)
qed

lemma pay_invoice_body_raises:
  fixes env :: "'w env"
  assumes "raises_only_Exception env" and "pay_invoice_body env self quote fl s = (Inl e, s1)"
  shows "is_Exception e"
  using assms(2)
  unfolding pay_invoice_body_def pay_invoice_fees_def try_except_def bnd_def await_def ret_def
    raise_def
  by (auto split: prod.splits sum.splits if_splits
      dest: only_Exception_pay_invoice [OF assms(1)] only_Exception_lookup_invoice [OF assms(1)]
            only_Exception_from_sats [OF assms(1)])

lemma pay_invoice_total:
  fixes env :: "'w env"
  assumes "raises_only_Exception env"
  shows "\<exists>r s'. pay_invoice env self quote fl s = (Inr r, s')"
proof -
  from try_except_cases [of "pay_invoice_body env self quote fl" s pay_invoice_except]
  show ?thesis
  proof (elim disjE exE conjE)
    fix v s' assume "pay_invoice_body env self quote fl s = (Inr v, s')"
      and "try_except (pay_invoice_body env self quote fl) pay_invoice_except s = (Inr v, s')"
    then show ?thesis by (simp add: pay_invoice_def)
  next
    fix e s' assume b: "pay_invoice_body env self quote fl s = (Inl e, s')"
      and t: "try_except (pay_invoice_body env self quote fl) pay_invoice_except s
                = pay_invoice_except e s'"
    from assms b have "is_Exception e" by (rule pay_invoice_body_raises)
    from pay_invoice_except_eq [OF this, of s'] t show ?thesis
      by (auto simp add: pay_invoice_def)
  qed
qed

lemma pay_invoice_fee_limit_irrelevant:
  "pay_invoice_body env self quote fl = pay_invoice_body env self quote fl'"
  by (simp add: pay_invoice_body_def)

lemma pay_invoice_first_call:
  fixes env :: "'w env"
  shows "\<exists>rest. snd (snd (pay_invoice env self quote fl (w, tr))) =
           tr @ PayInvoice \<lparr>Nip47PayInvoiceRequest.invoice = MeltQuote.request quote\<rparr> # rest"
proof -
  let ?ev = "PayInvoice \<lparr>Nip47PayInvoiceRequest.invoice = MeltQuote.request quote\<rparr>"
  let ?lk = "LookupInvoice \<lparr>Nip47LookupInvoiceRequest.payment_hash = MeltQuote.checking_id quote\<rparr>"
  obtain r w1 where pay: "client_pay_invoice env (client self)
      \<lparr>Nip47PayInvoiceRequest.invoice = MeltQuote.request quote\<rparr> w = (r, w1)"
    by (cases "client_pay_invoice env (client self)
      \<lparr>Nip47PayInvoiceRequest.invoice = MeltQuote.request quote\<rparr> w")
  show ?thesis
  proof (cases r)
    case (Inl e)
    with pay show ?thesis
      by (simp add: pay_invoice_pay_fails pay_invoice_except_trace)
  next
    case (Inr pres)
    with pay have pay': "client_pay_invoice env (client self)
      \<lparr>Nip47PayInvoiceRequest.invoice = MeltQuote.request quote\<rparr> w = (Inr pres, w1)" by simp
    from pay_invoice_fees_cases [of env self quote w1 "tr @ [?ev]"]
    obtain fr w2 where fees: "pay_invoice_fees env self quote (w1, tr @ [?ev]) =
        (fr, (w2, (tr @ [?ev]) @ [?lk]))"
      by blast
    show ?thesis
    proof (cases fr)
      case (Inl e)
      with fees show ?thesis
        by (simp add: pay_invoice_lookup_cancelled [OF pay'] pay_invoice_except_trace)
    next
      case (Inr f)
      obtain r3 w3 where fs: "fx_from_sats env f (NWCWallet.unit self) w2 = (r3, w3)"
        by (cases "fx_from_sats env f (NWCWallet.unit self) w2")
      from fees Inr have fees': "pay_invoice_fees env self quote (w1, tr @ [?ev]) =
        (Inr f, (w2, (tr @ [?ev]) @ [?lk]))" by simp
      show ?thesis
        using fs
        by (cases r3) (simp_all add: pay_invoice_paid [OF pay' fees'] pay_invoice_except_trace)
    qed
  qed
qed

lemma pay_invoice_conversions:
  fixes env :: "'w env"
  assumes "FromSats f u \<in> set (snd (snd (pay_invoice env self quote fl (w, []))))"
  shows "0 < f"
proof -
  let ?ev = "PayInvoice \<lparr>Nip47PayInvoiceRequest.invoice = MeltQuote.request quote\<rparr>"
  let ?lk = "LookupInvoice \<lparr>Nip47LookupInvoiceRequest.payment_hash = MeltQuote.checking_id quote\<rparr>"
  obtain r w1 where pay: "client_pay_invoice env (client self)
      \<lparr>Nip47PayInvoiceRequest.invoice = MeltQuote.request quote\<rparr> w = (r, w1)"
    by (cases "client_pay_invoice env (client self)
      \<lparr>Nip47PayInvoiceRequest.invoice = MeltQuote.request quote\<rparr> w")
  show ?thesis
  proof (cases r)
    case (Inl e)
    with pay assms show ?thesis
      by (simp add: pay_invoice_pay_fails pay_invoice_except_trace)
  next
    case (Inr pres)
    with pay have pay': "client_pay_invoice env (client self)
      \<lparr>Nip47PayInvoiceRequest.invoice = MeltQuote.request quote\<rparr> w = (Inr pres, w1)" by simp
    from pay_invoice_fees_cases [of env self quote w1 "[] @ [?ev]"]
    obtain fr w2 where fees: "pay_invoice_fees env self quote (w1, [] @ [?ev]) =
        (fr, (w2, [?ev, ?lk]))"
      by auto
    show ?thesis
    proof (cases fr)
      case (Inl e)
      with fees assms show ?thesis
        by (simp add: pay_invoice_lookup_cancelled [OF pay'] pay_invoice_except_trace)
    next
      case (Inr g)
      with fees have fees': "pay_invoice_fees env self quote (w1, [] @ [?ev]) =
        (Inr g, (w2, [?ev, ?lk]))" by simp
      obtain r3 w3 where fs: "fx_from_sats env g (NWCWallet.unit self) w2 = (r3, w3)"
        by (cases "fx_from_sats env g (NWCWallet.unit self) w2")
      show ?thesis
      proof (cases "g > 0")
        case False
        with assms show ?thesis by (simp add: pay_invoice_paid [OF pay' fees'])
      next
        case True
        with assms fs have "f = g"
          by (cases r3) (simp_all add: pay_invoice_paid [OF pay' fees'] pay_invoice_except_trace)
        with True show ?thesis by simp
      qed
    qed
  qed
qed

text \<open>
  Claim C9. When the payment succeeds and the lookup reports \<open>fees_paid\<close> with
  \<open>0 \<le> fees_paid < 1000\<close> millisatoshis, \<open>fees_paid div 1000\<close> is 0, the fee returned is
  0 in the wallet's unit, and the only calls made are the payment and the lookup: the rate
  provider is not consulted. In general a fee conversion is requested from the rate provider
  only for a strictly positive number of satoshis.
\<close>

theorem pay_invoice_sub_satoshi_fee:
  fixes env :: "'w env"
  assumes pay: "client_pay_invoice env (client self)
                  \<lparr>Nip47PayInvoiceRequest.invoice = MeltQuote.request quote\<rparr> w = (Inr pres, w1)"
      and look: "client_lookup_invoice env (client self)
                  \<lparr>Nip47LookupInvoiceRequest.payment_hash = MeltQuote.checking_id quote\<rparr> w1
                 = (Inr tx, w2)"
      and lo: "0 \<le> fees_paid tx" and hi: "fees_paid tx < 1000"
  shows "fees_paid tx div 1000 = 0
       \<and> pay_invoice env self quote fee_limit_msat (w, tr) =
           (Inr \<lparr>PaymentResponse.ok = True, checking_id = None,
                 fee = Some \<lparr>Amount.unit = NWCWallet.unit self, amount = 0\<rparr>,
                 preimage = Some (Nip47PayResponse.preimage pres),
                 error_message = None\<rparr>,
            (w2, tr @ [PayInvoice \<lparr>Nip47PayInvoiceRequest.invoice = MeltQuote.request quote\<rparr>,
                       LookupInvoice \<lparr>Nip47LookupInvoiceRequest.payment_hash =
                                        MeltQuote.checking_id quote\<rparr>]))
       \<and> (\<forall>f u w0. FromSats f u
              \<in> set (snd (snd (pay_invoice env self quote fee_limit_msat (w0, [])))) \<longrightarrow> 0 < f)"
proof (intro conjI allI impI)
  from lo hi show z: "fees_paid tx div 1000 = 0" by simp
  from look z have fees: "pay_invoice_fees env self quote
      (w1, tr @ [PayInvoice \<lparr>Nip47PayInvoiceRequest.invoice = MeltQuote.request quote\<rparr>])
    = (Inr 0, (w2, (tr @ [PayInvoice \<lparr>Nip47PayInvoiceRequest.invoice = MeltQuote.request quote\<rparr>])
          @ [LookupInvoice \<lparr>Nip47LookupInvoiceRequest.payment_hash = MeltQuote.checking_id quote\<rparr>]))"
    by (simp add: pay_invoice_fees_eq)
  show "pay_invoice env self quote fee_limit_msat (w, tr) =
           (Inr \<lparr>PaymentResponse.ok = True, checking_id = None,
                 fee = Some \<lparr>Amount.unit = NWCWallet.unit self, amount = 0\<rparr>,
                 preimage = Some (Nip47PayResponse.preimage pres),
                 error_message = None\<rparr>,
            (w2, tr @ [PayInvoice \<lparr>Nip47PayInvoiceRequest.invoice = MeltQuote.request quote\<rparr>,
                       LookupInvoice \<lparr>Nip47LookupInvoiceRequest.payment_hash =
                                        MeltQuote.checking_id quote\<rparr>]))"
    by (simp add: pay_invoice_paid [OF pay fees])
next
  fix f u w0
  assume "FromSats f u \<in> set (snd (snd (pay_invoice env self quote fee_limit_msat (w0, []))))"
  then show "0 < f" by (rule pay_invoice_conversions)
qed

theorem pay_invoice_sub_satoshi_fee_witness:
  "pay_invoice demo_env_small_fee demo_wallet demo_quote 5000 ((), []) =
     (Inr \<lparr>PaymentResponse.ok = True, checking_id = None,
           fee = Some \<lparr>Amount.unit = sat, amount = 0\<rparr>,
           preimage = Some ''c0ffee'', error_message = None\<rparr>,
      ((), [PayInvoice \<lparr>Nip47PayInvoiceRequest.invoice = ''lnbc2505n1demo''\<rparr>,
            LookupInvoice \<lparr>Nip47LookupInvoiceRequest.payment_hash = ''ab12''\<rparr>]))"
proof -
  have pay: "client_pay_invoice demo_env_small_fee (client demo_wallet)
      \<lparr>Nip47PayInvoiceRequest.invoice = MeltQuote.request demo_quote\<rparr> ()
      = (Inr \<lparr>Nip47PayResponse.preimage = ''c0ffee''\<rparr>, ())"
    by (simp add: demo_env_small_fee_def demo_env_def)
  have look: "client_lookup_invoice demo_env_small_fee (client demo_wallet)
      \<lparr>Nip47LookupInvoiceRequest.payment_hash = MeltQuote.checking_id demo_quote\<rparr> ()
      = (Inr (demo_transaction\<lparr>fees_paid := 999\<rparr>), ())"
    by (simp add: demo_env_small_fee_def demo_env_def)
  have lo: "0 \<le> fees_paid (demo_transaction\<lparr>fees_paid := 999\<rparr>)" by simp
  have hi: "fees_paid (demo_transaction\<lparr>fees_paid := 999\<rparr>) < 1000" by simp
  from pay_invoice_sub_satoshi_fee [OF pay look lo hi, of 5000 "[]"]
  show ?thesis by (simp add: demo_wallet_def demo_quote_def)
qed

text \<open>
  With the fee limits 0 and 5000 the wallet makes the same calls and returns the same
  result: the request that reaches the protocol client holds the invoice string and
  nothing else.
\<close>

theorem pay_invoice_fee_limit_counterexample:
  "pay_invoice demo_env demo_wallet demo_quote 0 ((), [])
     = pay_invoice demo_env demo_wallet demo_quote 5000 ((), [])
   \<and> snd (snd (pay_invoice demo_env demo_wallet demo_quote 5000 ((), []))) =
       [PayInvoice \<lparr>Nip47PayInvoiceRequest.invoice = ''lnbc2505n1demo''\<rparr>,
        LookupInvoice \<lparr>Nip47LookupInvoiceRequest.payment_hash = ''ab12''\<rparr>,
        FromSats 2 sat]"
  by (simp add: pay_invoice_def pay_invoice_body_def pay_invoice_fees_def pay_invoice_except_def
      try_except_def bnd_def await_def ret_def demo_env_def
      demo_wallet_def demo_quote_def demo_transaction_def)

text \<open>
  Claim C5, amended. \<open>pay_invoice\<close> does not read \<open>fee_limit_msat\<close>: for every quote, the
  calls it makes and the result it returns are the same for every fee limit, and its first
  call is the payment request built from the quote's payment-request string alone.
\<close>

theorem pay_invoice_ignores_fee_limit:
  fixes env :: "'w env"
  shows "pay_invoice env self quote fee_limit_msat (w, tr)
           = pay_invoice env self quote other_limit (w, tr)
       \<and> (\<exists>rest. snd (snd (pay_invoice env self quote fee_limit_msat (w, tr))) =
             tr @ PayInvoice \<lparr>Nip47PayInvoiceRequest.invoice = MeltQuote.request quote\<rparr> # rest)"
proof
  show "pay_invoice env self quote fee_limit_msat (w, tr)
           = pay_invoice env self quote other_limit (w, tr)"
    by (simp add: pay_invoice_def pay_invoice_fee_limit_irrelevant [of env self quote fee_limit_msat other_limit])
next
  show "\<exists>rest. snd (snd (pay_invoice env self quote fee_limit_msat (w, tr))) =
             tr @ PayInvoice \<lparr>Nip47PayInvoiceRequest.invoice = MeltQuote.request quote\<rparr> # rest"
    by (rule pay_invoice_first_call)
qed

lemma pay_invoice_lookup_fails:
  fixes env :: "'w env"
  assumes pay: "client_pay_invoice env (client self)
                  \<lparr>Nip47PayInvoiceRequest.invoice = MeltQuote.request quote\<rparr> w = (Inr pres, w1)"
      and look: "client_lookup_invoice env (client self)
                  \<lparr>Nip47LookupInvoiceRequest.payment_hash = MeltQuote.checking_id quote\<rparr> w1
                 = (Inl e, w2)"
      and exc: "is_Exception e"
  shows "pay_invoice env self quote fl (w, tr) =
           (Inr \<lparr>PaymentResponse.ok = True, checking_id = None,
                 fee = Some \<lparr>Amount.unit = NWCWallet.unit self, amount = 0\<rparr>,
                 preimage = Some (Nip47PayResponse.preimage pres),
                 error_message = None\<rparr>,
            (w2, tr @ [PayInvoice \<lparr>Nip47PayInvoiceRequest.invoice = MeltQuote.request quote\<rparr>,
                       LookupInvoice \<lparr>Nip47LookupInvoiceRequest.payment_hash =
                                        MeltQuote.checking_id quote\<rparr>]))"
proof -
  from look exc have fees: "pay_invoice_fees env self quote
      (w1, tr @ [PayInvoice \<lparr>Nip47PayInvoiceRequest.invoice = MeltQuote.request quote\<rparr>])
    = (Inr 0, (w2, (tr @ [PayInvoice \<lparr>Nip47PayInvoiceRequest.invoice = MeltQuote.request quote\<rparr>])
          @ [LookupInvoice \<lparr>Nip47LookupInvoiceRequest.payment_hash = MeltQuote.checking_id quote\<rparr>]))"
    by (simp add: pay_invoice_fees_eq)
  show ?thesis by (simp add: pay_invoice_paid [OF pay fees])
qed

text \<open>
  Claim C2 states that a successful payment call always gives \<open>ok = True\<close>. Here the payment
  call succeeds and the lookup reports 2500 millisatoshis of fees; the rate provider then
  raises while converting the 2 satoshis. The conversion is outside the inner \<open>try\<close> that
  guards the lookup, so the outer handler returns \<open>ok = False\<close> with no preimage for an
  invoice that has been paid.
\<close>

theorem pay_invoice_fails_after_payment:
  "client_pay_invoice demo_env_rate_down (client demo_wallet)
      \<lparr>Nip47PayInvoiceRequest.invoice = MeltQuote.request demo_quote\<rparr> ()
     = (Inr \<lparr>Nip47PayResponse.preimage = ''c0ffee''\<rparr>, ())
   \<and> client_lookup_invoice demo_env_rate_down (client demo_wallet)
      \<lparr>Nip47LookupInvoiceRequest.payment_hash = MeltQuote.checking_id demo_quote\<rparr> ()
     = (Inr demo_transaction, ())
   \<and> fees_paid demo_transaction = 2500
   \<and> pay_invoice demo_env_rate_down demo_wallet demo_quote 5000 ((), []) =
     (Inr \<lparr>PaymentResponse.ok = False, checking_id = None, fee = None, preimage = None,
           error_message = Some ''Failed to pay invoice due to: rate fetch failed''\<rparr>,
      ((), [PayInvoice \<lparr>Nip47PayInvoiceRequest.invoice = ''lnbc2505n1demo''\<rparr>,
            LookupInvoice \<lparr>Nip47LookupInvoiceRequest.payment_hash = ''ab12''\<rparr>,
            FromSats 2 sat]))"
  by (simp add: pay_invoice_def pay_invoice_body_def pay_invoice_fees_def pay_invoice_except_def
      try_except_def bnd_def await_def ret_def demo_env_rate_down_def demo_env_def
      demo_wallet_def demo_quote_def demo_transaction_def)

subsection \<open>The two status lookups\<close>

lemma lookup_status_eq:
  fixes env :: "'w env"
  shows "get_invoice_status env self cid (w, tr) =
     (case client_lookup_invoice env (client self)
             \<lparr>Nip47LookupInvoiceRequest.payment_hash = cid\<rparr> w of
        (Inl e, w') \<Rightarrow>
          (if is_Exception e then Inr \<lparr>paid = False\<rparr> else Inl e,
           (w', tr @ [LookupInvoice \<lparr>Nip47LookupInvoiceRequest.payment_hash = cid\<rparr>]))
      | (Inr res, w') \<Rightarrow>
          (Inr \<lparr>paid = (Nip47Transaction.preimage res \<noteq> None
                          \<and> Nip47Transaction.preimage res \<noteq> Some [])\<rparr>,
           (w', tr @ [LookupInvoice \<lparr>Nip47LookupInvoiceRequest.payment_hash = cid\<rparr>])))"
  by (simp add: get_invoice_status_def get_invoice_status_body_def try_except_def bnd_def
      await_def ret_def raise_def split: prod.splits sum.splits)

lemma status_lookups_equal:
  "get_invoice_status env self cid = get_payment_status env self cid"
proof -
  have "get_invoice_status_body env self cid = get_payment_status_body env self cid"
    by (simp add: get_invoice_status_body_def get_payment_status_body_def)
  then show ?thesis
    by (simp add: get_invoice_status_def get_payment_status_def)
qed

lemma get_invoice_status_total:
  fixes env :: "'w env"
  assumes "raises_only_Exception env"
  shows "\<exists>r s'. get_invoice_status env self cid s = (Inr r, s')"
proof -
  obtain w tr where s: "s = (w, tr)" by (cases s)
  obtain r w' where l: "client_lookup_invoice env (client self)
      \<lparr>Nip47LookupInvoiceRequest.payment_hash = cid\<rparr> w = (r, w')"
    by (cases "client_lookup_invoice env (client self)
      \<lparr>Nip47LookupInvoiceRequest.payment_hash = cid\<rparr> w")
  show ?thesis
  proof (cases r)
    case (Inl e)
    with l have "is_Exception e" by (simp add: only_Exception_lookup_invoice [OF assms])
    with l Inl show ?thesis by (simp add: s lookup_status_eq)
  next
    case (Inr res)
    with l show ?thesis by (simp add: s lookup_status_eq)
  qed
qed

lemma get_payment_status_total:
  fixes env :: "'w env"
  assumes "raises_only_Exception env"
  shows "\<exists>r s'. get_payment_status env self cid s = (Inr r, s')"
  using get_invoice_status_total [OF assms, of self cid s]
  by (simp add: status_lookups_equal)

text \<open>
  A lookup that ends in an exception outside \<open>Exception\<close> (the task is cancelled) is not a
  result \<open>paid = False\<close>: the exception leaves \<open>get_invoice_status\<close>.
\<close>

theorem status_lookup_cancelled_counterexample:
  "get_invoice_status demo_env_client_cancelled demo_wallet ''ab12'' ((), []) =
     (Inl (OtherBaseException ''CancelledError''),
      ((), [LookupInvoice \<lparr>Nip47LookupInvoiceRequest.payment_hash = ''ab12''\<rparr>]))"
  by (simp add: get_invoice_status_def get_invoice_status_body_def try_except_def bnd_def
      await_def raise_def demo_env_client_cancelled_def demo_env_def)

text \<open>
  Claim C6, amended. For every checking identifier and every behaviour of the protocol
  client, \<open>get_invoice_status\<close> and \<open>get_payment_status\<close> return the same outcome. Both make
  one lookup by the checking identifier; the result is \<open>paid = True\<close> exactly when the lookup
  succeeds with a preimage that is present and not empty, and \<open>paid = False\<close> when the
  lookup raises an instance of \<open>Exception\<close>, not-found included. An exception that is not
  an instance of \<open>Exception\<close> is raised by both operations alike.
\<close>

theorem invoice_and_payment_status_agree:
  fixes env :: "'w env"
  shows "get_invoice_status env self cid (w, tr) = get_payment_status env self cid (w, tr)
   \<and> get_invoice_status env self cid (w, tr) =
     (case client_lookup_invoice env (client self)
             \<lparr>Nip47LookupInvoiceRequest.payment_hash = cid\<rparr> w of
        (Inl e, w') \<Rightarrow>
          (if is_Exception e then Inr \<lparr>paid = False\<rparr> else Inl e,
           (w', tr @ [LookupInvoice \<lparr>Nip47LookupInvoiceRequest.payment_hash = cid\<rparr>]))
      | (Inr res, w') \<Rightarrow>
          (Inr \<lparr>paid = (Nip47Transaction.preimage res \<noteq> None
                          \<and> Nip47Transaction.preimage res \<noteq> Some [])\<rparr>,
           (w', tr @ [LookupInvoice \<lparr>Nip47LookupInvoiceRequest.payment_hash = cid\<rparr>])))"
proof
  show "get_invoice_status env self cid (w, tr) = get_payment_status env self cid (w, tr)"
    by (simp add: status_lookups_equal)
next
  show "get_invoice_status env self cid (w, tr) =
     (case client_lookup_invoice env (client self)
             \<lparr>Nip47LookupInvoiceRequest.payment_hash = cid\<rparr> w of
        (Inl e, w') \<Rightarrow>
          (if is_Exception e then Inr \<lparr>paid = False\<rparr> else Inl e,
           (w', tr @ [LookupInvoice \<lparr>Nip47LookupInvoiceRequest.payment_hash = cid\<rparr>]))
      | (Inr res, w') \<Rightarrow>
          (Inr \<lparr>paid = (Nip47Transaction.preimage res \<noteq> None
                          \<and> Nip47Transaction.preimage res \<noteq> Some [])\<rparr>,
           (w', tr @ [LookupInvoice \<lparr>Nip47LookupInvoiceRequest.payment_hash = cid\<rparr>])))"
    by (rule lookup_status_eq)
qed

subsection \<open>Construction\<close>

text \<open>
  Claim C8. Constructing the wallet with a unit outside \<open>{sat, usd}\<close> fails with an
  exception; with \<open>sat\<close> or \<open>usd\<close> it succeeds and the wallet stores that unit.
\<close>

theorem init_unit_check:
  "(u \<notin> {sat, usd} \<longrightarrow> (\<exists>e. init cfg u = Inl e))
   \<and> (u \<in> {sat, usd} \<longrightarrow>
        init cfg u = Inr \<lparr>NWCWallet.unit = u, client = NWCClient (mint_nwc_url cfg)\<rparr>)"
  by (simp add: init_def assert_unit_supported_def supported_units_def)

theorem init_unit_check_witness:
  "(\<exists>e. init \<lparr>mint_nwc_url = Some ''nostr+walletconnect://wallet''\<rparr> msat = Inl e)
   \<and> init \<lparr>mint_nwc_url = Some ''nostr+walletconnect://wallet''\<rparr> usd = Inr (demo_wallet\<lparr>NWCWallet.unit := usd\<rparr>)"
  using init_unit_check [of msat "\<lparr>mint_nwc_url = Some ''nostr+walletconnect://wallet''\<rparr>"]
        init_unit_check [of usd "\<lparr>mint_nwc_url = Some ''nostr+walletconnect://wallet''\<rparr>"]
  by (simp add: demo_wallet_def demo_client_def)

subsection \<open>Failures stop at the boundary of an operation\<close>

text \<open>
  Two behaviours that the claim as stated excludes. A call that ends in an exception
  outside \<open>Exception\<close> (here \<open>get_info\<close> is cancelled) leaves \<open>status\<close> as that exception.
  And a failing fee lookup after a successful payment is not turned into \<open>ok = False\<close>: the
  result is \<open>ok = True\<close> with no error message.
\<close>

theorem operations_never_raise_counterexample:
  "status demo_env_client_cancelled demo_wallet ((), []) =
     (Inl (OtherBaseException ''CancelledError''), ((), [GetInfo]))
   \<and> client_lookup_invoice demo_env_lookup_down (client demo_wallet)
        \<lparr>Nip47LookupInvoiceRequest.payment_hash = MeltQuote.checking_id demo_quote\<rparr> ()
       = (Inl (Nip47Error ''NOT_FOUND''), ())
   \<and> pay_invoice demo_env_lookup_down demo_wallet demo_quote 5000 ((), []) =
     (Inr \<lparr>PaymentResponse.ok = True, checking_id = None,
           fee = Some \<lparr>Amount.unit = sat, amount = 0\<rparr>,
           preimage = Some ''c0ffee'', error_message = None\<rparr>,
      ((), [PayInvoice \<lparr>Nip47PayInvoiceRequest.invoice = ''lnbc2505n1demo''\<rparr>,
            LookupInvoice \<lparr>Nip47LookupInvoiceRequest.payment_hash = ''ab12''\<rparr>]))"
  by (simp add: status_def status_body_def status_except_def
      pay_invoice_def pay_invoice_body_def pay_invoice_fees_def
      try_except_def bnd_def await_def ret_def raise_def
      demo_env_client_cancelled_def demo_env_lookup_down_def demo_env_def
      demo_wallet_def demo_quote_def)

text \<open>
  Claim C4, amended. When the protocol client and the rate provider raise nothing but
  instances of \<open>Exception\<close> (protocol errors and generic exceptions), \<open>status\<close>,
  \<open>create_invoice\<close>, \<open>pay_invoice\<close>, \<open>get_invoice_status\<close> and \<open>get_payment_status\<close> return a
  value of their result type and never an exception. A failure of \<open>get_info\<close>,
  \<open>get_balance\<close> or the balance conversion gives balance 0 with an error message; a
  failure of the amount conversion or of the invoice request gives \<open>ok = False\<close> with an
  error message; a failure of the payment call gives \<open>ok = False\<close> with an error message and
  neither fee nor preimage; a failure of the lookup gives \<open>paid = False\<close> in the two status
  lookups. The failure of the fee lookup that follows a successful payment is absorbed:
  the result is \<open>ok = True\<close> with the fee 0.
\<close>

theorem operations_catch_exceptions:
  fixes env :: "'w env"
  assumes only: "raises_only_Exception env"
  shows "(\<exists>r s'. status env self (w, tr) = (Inr r, s'))
       \<and> (\<exists>r s'. create_invoice env self amt memo description_hash unhashed_description (w, tr)
                    = (Inr r, s'))
       \<and> (\<exists>r s'. pay_invoice env self quote fee_limit_msat (w, tr) = (Inr r, s'))
       \<and> (\<exists>r s'. get_invoice_status env self cid (w, tr) = (Inr r, s'))
       \<and> (\<exists>r s'. get_payment_status env self cid (w, tr) = (Inr r, s'))
       \<and> (\<forall>e w1. client_get_info env (client self) w = (Inl e, w1) \<longrightarrow>
             (\<exists>msg. status env self (w, tr) =
                (Inr \<lparr>StatusResponse.balance = 0, error_message = Some msg\<rparr>,
                 (w1, tr @ [GetInfo]))))
       \<and> (\<forall>info w1 e w2.
             client_get_info env (client self) w = (Inr info, w1) \<longrightarrow>
             {''get_info'', ''get_balance'', ''make_invoice'', ''pay_invoice'', ''lookup_invoice''}
               \<subseteq> set (methods info) \<longrightarrow>
             client_get_balance env (client self) w1 = (Inl e, w2) \<longrightarrow>
             (\<exists>msg. status env self (w, tr) =
                (Inr \<lparr>StatusResponse.balance = 0, error_message = Some msg\<rparr>,
                 (w2, tr @ [GetInfo, GetBalance]))))
       \<and> (\<forall>info w1 res w2 e w3.
             client_get_info env (client self) w = (Inr info, w1) \<longrightarrow>
             {''get_info'', ''get_balance'', ''make_invoice'', ''pay_invoice'', ''lookup_invoice''}
               \<subseteq> set (methods info) \<longrightarrow>
             client_get_balance env (client self) w1 = (Inr res, w2) \<longrightarrow>
             fx_from_sats env (Nip47GetBalanceResponse.balance res div 1000)
               (NWCWallet.unit self) w2 = (Inl e, w3) \<longrightarrow>
             (\<exists>msg. status env self (w, tr) =
                (Inr \<lparr>StatusResponse.balance = 0, error_message = Some msg\<rparr>,
                 (w3, tr @ [GetInfo, GetBalance,
                            FromSats (Nip47GetBalanceResponse.balance res div 1000)
                              (NWCWallet.unit self)]))))
       \<and> (\<forall>e w1. fx_to_sats env (Amount.amount amt) (NWCWallet.unit self) w = (Inl e, w1) \<longrightarrow>
             (\<exists>msg. create_invoice env self amt memo description_hash unhashed_description (w, tr) =
                (Inr \<lparr>InvoiceResponse.ok = False, checking_id = None, payment_request = None,
                      error_message = Some msg\<rparr>,
                 (w1, tr @ [ToSats (Amount.amount amt) (NWCWallet.unit self)]))))
       \<and> (\<forall>amount_sat w1 e w2.
             fx_to_sats env (Amount.amount amt) (NWCWallet.unit self) w = (Inr amount_sat, w1) \<longrightarrow>
             client_create_invoice env (client self)
               \<lparr>Nip47MakeInvoiceRequest.amount = amount_sat * 1000\<rparr> w1 = (Inl e, w2) \<longrightarrow>
             (\<exists>msg. create_invoice env self amt memo description_hash unhashed_description (w, tr) =
                (Inr \<lparr>InvoiceResponse.ok = False, checking_id = None, payment_request = None,
                      error_message = Some msg\<rparr>,
                 (w2, tr @ [ToSats (Amount.amount amt) (NWCWallet.unit self),
                            MakeInvoice \<lparr>Nip47MakeInvoiceRequest.amount = amount_sat * 1000\<rparr>]))))
       \<and> (\<forall>e w1.
             client_pay_invoice env (client self)
               \<lparr>Nip47PayInvoiceRequest.invoice = MeltQuote.request quote\<rparr> w = (Inl e, w1) \<longrightarrow>
             (\<exists>msg. pay_invoice env self quote fee_limit_msat (w, tr) =
                (Inr \<lparr>PaymentResponse.ok = False, checking_id = None, fee = None, preimage = None,
                      error_message = Some msg\<rparr>,
                 (w1, tr @ [PayInvoice \<lparr>Nip47PayInvoiceRequest.invoice =
                                          MeltQuote.request quote\<rparr>]))))
       \<and> (\<forall>pres w1 e w2.
             client_pay_invoice env (client self)
               \<lparr>Nip47PayInvoiceRequest.invoice = MeltQuote.request quote\<rparr> w = (Inr pres, w1) \<longrightarrow>
             client_lookup_invoice env (client self)
               \<lparr>Nip47LookupInvoiceRequest.payment_hash = MeltQuote.checking_id quote\<rparr> w1
               = (Inl e, w2) \<longrightarrow>
             pay_invoice env self quote fee_limit_msat (w, tr) =
               (Inr \<lparr>PaymentResponse.ok = True, checking_id = None,
                     fee = Some \<lparr>Amount.unit = NWCWallet.unit self, amount = 0\<rparr>,
                     preimage = Some (Nip47PayResponse.preimage pres),
                     error_message = None\<rparr>,
                (w2, tr @ [PayInvoice \<lparr>Nip47PayInvoiceRequest.invoice = MeltQuote.request quote\<rparr>,
                           LookupInvoice \<lparr>Nip47LookupInvoiceRequest.payment_hash =
                                            MeltQuote.checking_id quote\<rparr>])))
       \<and> (\<forall>e w1.
             client_lookup_invoice env (client self)
               \<lparr>Nip47LookupInvoiceRequest.payment_hash = cid\<rparr> w = (Inl e, w1) \<longrightarrow>
             get_invoice_status env self cid (w, tr) =
               (Inr \<lparr>paid = False\<rparr>,
                (w1, tr @ [LookupInvoice \<lparr>Nip47LookupInvoiceRequest.payment_hash = cid\<rparr>]))
             \<and> get_payment_status env self cid (w, tr) =
               (Inr \<lparr>paid = False\<rparr>,
                (w1, tr @ [LookupInvoice \<lparr>Nip47LookupInvoiceRequest.payment_hash = cid\<rparr>])))"
proof (intro conjI allI impI)
  show "\<exists>r s'. status env self (w, tr) = (Inr r, s')"
    by (rule status_total [OF only])
  show "\<exists>r s'. create_invoice env self amt memo description_hash unhashed_description (w, tr)
                    = (Inr r, s')"
    by (rule create_invoice_total [OF only])
  show "\<exists>r s'. pay_invoice env self quote fee_limit_msat (w, tr) = (Inr r, s')"
    by (rule pay_invoice_total [OF only])
  show "\<exists>r s'. get_invoice_status env self cid (w, tr) = (Inr r, s')"
    by (rule get_invoice_status_total [OF only])
  show "\<exists>r s'. get_payment_status env self cid (w, tr) = (Inr r, s')"
    by (rule get_payment_status_total [OF only])
next
  fix e w1
  assume f: "client_get_info env (client self) w = (Inl e, w1)"
  from only f have "is_Exception e" by (rule only_Exception_get_info)
  from status_except_eq [OF this]
  show "\<exists>msg. status env self (w, tr) =
      (Inr \<lparr>StatusResponse.balance = 0, error_message = Some msg\<rparr>, (w1, tr @ [GetInfo]))"
    by (simp add: status_get_info_fails [OF f])
next
  fix info w1 e w2
  assume i: "client_get_info env (client self) w = (Inr info, w1)"
    and m: "{''get_info'', ''get_balance'', ''make_invoice'', ''pay_invoice'', ''lookup_invoice''}
               \<subseteq> set (methods info)"
    and f: "client_get_balance env (client self) w1 = (Inl e, w2)"
  from only f have "is_Exception e" by (rule only_Exception_get_balance)
  from status_except_eq [OF this]
  show "\<exists>msg. status env self (w, tr) =
      (Inr \<lparr>StatusResponse.balance = 0, error_message = Some msg\<rparr>,
       (w2, tr @ [GetInfo, GetBalance]))"
    by (simp add: status_get_balance_fails [OF i m f])
next
  fix info w1 res w2 e w3
  assume i: "client_get_info env (client self) w = (Inr info, w1)"
    and m: "{''get_info'', ''get_balance'', ''make_invoice'', ''pay_invoice'', ''lookup_invoice''}
               \<subseteq> set (methods info)"
    and b: "client_get_balance env (client self) w1 = (Inr res, w2)"
    and f: "fx_from_sats env (Nip47GetBalanceResponse.balance res div 1000)
               (NWCWallet.unit self) w2 = (Inl e, w3)"
  from only f have "is_Exception e" by (rule only_Exception_from_sats)
  from status_except_eq [OF this]
  show "\<exists>msg. status env self (w, tr) =
      (Inr \<lparr>StatusResponse.balance = 0, error_message = Some msg\<rparr>,
       (w3, tr @ [GetInfo, GetBalance,
                  FromSats (Nip47GetBalanceResponse.balance res div 1000) (NWCWallet.unit self)]))"
    by (simp add: status_from_sats_fails [OF i m b f])
next
  fix e w1
  assume f: "fx_to_sats env (Amount.amount amt) (NWCWallet.unit self) w = (Inl e, w1)"
  from only f have "is_Exception e" by (rule only_Exception_to_sats)
  from create_invoice_except_eq [OF this]
  show "\<exists>msg. create_invoice env self amt memo description_hash unhashed_description (w, tr) =
      (Inr \<lparr>InvoiceResponse.ok = False, checking_id = None, payment_request = None,
            error_message = Some msg\<rparr>,
       (w1, tr @ [ToSats (Amount.amount amt) (NWCWallet.unit self)]))"
    by (simp add: create_invoice_to_sats_fails [OF f])
next
  fix amount_sat w1 e w2
  assume t: "fx_to_sats env (Amount.amount amt) (NWCWallet.unit self) w = (Inr amount_sat, w1)"
    and f: "client_create_invoice env (client self)
               \<lparr>Nip47MakeInvoiceRequest.amount = amount_sat * 1000\<rparr> w1 = (Inl e, w2)"
  from only f have "is_Exception e" by (rule only_Exception_create_invoice)
  from create_invoice_except_eq [OF this]
  show "\<exists>msg. create_invoice env self amt memo description_hash unhashed_description (w, tr) =
      (Inr \<lparr>InvoiceResponse.ok = False, checking_id = None, payment_request = None,
            error_message = Some msg\<rparr>,
       (w2, tr @ [ToSats (Amount.amount amt) (NWCWallet.unit self),
                  MakeInvoice \<lparr>Nip47MakeInvoiceRequest.amount = amount_sat * 1000\<rparr>]))"
    by (simp add: create_invoice_request_fails [OF t f])
next
  fix e w1
  assume f: "client_pay_invoice env (client self)
               \<lparr>Nip47PayInvoiceRequest.invoice = MeltQuote.request quote\<rparr> w = (Inl e, w1)"
  from only f have "is_Exception e" by (rule only_Exception_pay_invoice)
  from pay_invoice_except_eq [OF this]
  show "\<exists>msg. pay_invoice env self quote fee_limit_msat (w, tr) =
      (Inr \<lparr>PaymentResponse.ok = False, checking_id = None, fee = None, preimage = None,
            error_message = Some msg\<rparr>,
       (w1, tr @ [PayInvoice \<lparr>Nip47PayInvoiceRequest.invoice = MeltQuote.request quote\<rparr>]))"
    by (simp add: pay_invoice_pay_fails [OF f])
next
  fix pres w1 e w2
  assume p: "client_pay_invoice env (client self)
               \<lparr>Nip47PayInvoiceRequest.invoice = MeltQuote.request quote\<rparr> w = (Inr pres, w1)"
    and f: "client_lookup_invoice env (client self)
               \<lparr>Nip47LookupInvoiceRequest.payment_hash = MeltQuote.checking_id quote\<rparr> w1
               = (Inl e, w2)"
  from only f have "is_Exception e" by (rule only_Exception_lookup_invoice)
  with p f show "pay_invoice env self quote fee_limit_msat (w, tr) =
      (Inr \<lparr>PaymentResponse.ok = True, checking_id = None,
            fee = Some \<lparr>Amount.unit = NWCWallet.unit self, amount = 0\<rparr>,
            preimage = Some (Nip47PayResponse.preimage pres),
            error_message = None\<rparr>,
       (w2, tr @ [PayInvoice \<lparr>Nip47PayInvoiceRequest.invoice = MeltQuote.request quote\<rparr>,
                  LookupInvoice \<lparr>Nip47LookupInvoiceRequest.payment_hash =
                                   MeltQuote.checking_id quote\<rparr>]))"
    by (rule pay_invoice_lookup_fails)
next
  fix e w1
  assume f: "client_lookup_invoice env (client self)
               \<lparr>Nip47LookupInvoiceRequest.payment_hash = cid\<rparr> w = (Inl e, w1)"
  from only f have x: "is_Exception e" by (rule only_Exception_lookup_invoice)
  with f show g: "get_invoice_status env self cid (w, tr) =
      (Inr \<lparr>paid = False\<rparr>,
       (w1, tr @ [LookupInvoice \<lparr>Nip47LookupInvoiceRequest.payment_hash = cid\<rparr>]))"
    by (simp add: lookup_status_eq)
  then show "get_payment_status env self cid (w, tr) =
      (Inr \<lparr>paid = False\<rparr>,
       (w1, tr @ [LookupInvoice \<lparr>Nip47LookupInvoiceRequest.payment_hash = cid\<rparr>]))"
    by (simp add: status_lookups_equal)
qed


theorem operations_catch_exceptions_witness:
  "raises_only_Exception demo_env_client_down
   \<and> (\<exists>msg. status demo_env_client_down demo_wallet ((), []) =
         (Inr \<lparr>StatusResponse.balance = 0, error_message = Some msg\<rparr>, ((), [GetInfo])))
   \<and> (\<exists>msg. pay_invoice demo_env_client_down demo_wallet demo_quote 5000 ((), []) =
         (Inr \<lparr>PaymentResponse.ok = False, checking_id = None, fee = None, preimage = None,
               error_message = Some msg\<rparr>,
          ((), [PayInvoice \<lparr>Nip47PayInvoiceRequest.invoice = ''lnbc2505n1demo''\<rparr>])))
   \<and> get_invoice_status demo_env_client_down demo_wallet ''ab12'' ((), []) =
         (Inr \<lparr>paid = False\<rparr>,
          ((), [LookupInvoice \<lparr>Nip47LookupInvoiceRequest.payment_hash = ''ab12''\<rparr>]))
   \<and> get_payment_status demo_env_client_down demo_wallet ''ab12'' ((), []) =
         (Inr \<lparr>paid = False\<rparr>,
          ((), [LookupInvoice \<lparr>Nip47LookupInvoiceRequest.payment_hash = ''ab12''\<rparr>]))
   \<and> raises_only_Exception demo_env_rate_down
   \<and> (\<exists>msg. status demo_env_rate_down demo_wallet ((), []) =
         (Inr \<lparr>StatusResponse.balance = 0, error_message = Some msg\<rparr>,
          ((), [GetInfo, GetBalance, FromSats 12345 sat])))
   \<and> (\<exists>msg. create_invoice demo_env_rate_down demo_wallet \<lparr>Amount.unit = sat, amount = 1000\<rparr>
                None None None ((), []) =
         (Inr \<lparr>InvoiceResponse.ok = False, checking_id = None, payment_request = None,
               error_message = Some msg\<rparr>, ((), [ToSats 1000 sat])))
   \<and> raises_only_Exception demo_env_lookup_down
   \<and> pay_invoice demo_env_lookup_down demo_wallet demo_quote 5000 ((), []) =
         (Inr \<lparr>PaymentResponse.ok = True, checking_id = None,
               fee = Some \<lparr>Amount.unit = sat, amount = 0\<rparr>,
               preimage = Some ''c0ffee'', error_message = None\<rparr>,
          ((), [PayInvoice \<lparr>Nip47PayInvoiceRequest.invoice = ''lnbc2505n1demo''\<rparr>,
                LookupInvoice \<lparr>Nip47LookupInvoiceRequest.payment_hash = ''ab12''\<rparr>]))"
proof -
  let ?amt = "\<lparr>Amount.unit = sat, amount = 1000\<rparr>"
  have o1: "raises_only_Exception demo_env_client_down"
    by (simp add: raises_only_Exception_def demo_env_client_down_def demo_env_def)
  have o2: "raises_only_Exception demo_env_rate_down"
    by (simp add: raises_only_Exception_def demo_env_rate_down_def demo_env_def)
  have o3: "raises_only_Exception demo_env_lookup_down"
    by (simp add: raises_only_Exception_def demo_env_lookup_down_def demo_env_def)
  note t1 = operations_catch_exceptions [OF o1, of demo_wallet "()" "[]" ?amt None None None
      demo_quote 5000 "''ab12''"]
  note t2 = operations_catch_exceptions [OF o2, of demo_wallet "()" "[]" ?amt None None None
      demo_quote 5000 "''ab12''"]
  note t3 = operations_catch_exceptions [OF o3, of demo_wallet "()" "[]" ?amt None None None
      demo_quote 5000 "''ab12''"]
  have i1: "client_get_info demo_env_client_down (client demo_wallet) ()
      = (Inl (Nip47Error ''RATE_LIMITED''), ())"
    by (simp add: demo_env_client_down_def demo_env_def)
  have p1: "client_pay_invoice demo_env_client_down (client demo_wallet)
      \<lparr>Nip47PayInvoiceRequest.invoice = MeltQuote.request demo_quote\<rparr> ()
      = (Inl (OtherException ''timeout''), ())"
    by (simp add: demo_env_client_down_def demo_env_def)
  have l1: "client_lookup_invoice demo_env_client_down (client demo_wallet)
      \<lparr>Nip47LookupInvoiceRequest.payment_hash = ''ab12''\<rparr> ()
      = (Inl (Nip47Error ''NOT_FOUND''), ())"
    by (simp add: demo_env_client_down_def demo_env_def)
  from t1 [THEN conjunct2, THEN conjunct2, THEN conjunct2, THEN conjunct2, THEN conjunct2,
      THEN conjunct1, rule_format, OF i1]
  have c1: "\<exists>msg. status demo_env_client_down demo_wallet ((), []) =
         (Inr \<lparr>StatusResponse.balance = 0, error_message = Some msg\<rparr>, ((), [] @ [GetInfo]))"
    by simp
  from t1 [THEN conjunct2, THEN conjunct2, THEN conjunct2, THEN conjunct2, THEN conjunct2,
      THEN conjunct2, THEN conjunct2, THEN conjunct2, THEN conjunct2,
      THEN conjunct2, THEN conjunct1, rule_format, OF p1]
  have c2: "\<exists>msg. pay_invoice demo_env_client_down demo_wallet demo_quote 5000 ((), []) =
         (Inr \<lparr>PaymentResponse.ok = False, checking_id = None, fee = None, preimage = None,
               error_message = Some msg\<rparr>,
          ((), [] @ [PayInvoice \<lparr>Nip47PayInvoiceRequest.invoice = MeltQuote.request demo_quote\<rparr>]))"
    by simp
  from t1 [THEN conjunct2, THEN conjunct2, THEN conjunct2, THEN conjunct2, THEN conjunct2,
      THEN conjunct2, THEN conjunct2, THEN conjunct2, THEN conjunct2,
      THEN conjunct2, THEN conjunct2, THEN conjunct2, rule_format, OF l1]
  have c3: "get_invoice_status demo_env_client_down demo_wallet ''ab12'' ((), []) =
         (Inr \<lparr>paid = False\<rparr>,
          ((), [] @ [LookupInvoice \<lparr>Nip47LookupInvoiceRequest.payment_hash = ''ab12''\<rparr>]))
      \<and> get_payment_status demo_env_client_down demo_wallet ''ab12'' ((), []) =
         (Inr \<lparr>paid = False\<rparr>,
          ((), [] @ [LookupInvoice \<lparr>Nip47LookupInvoiceRequest.payment_hash = ''ab12''\<rparr>]))"
    by simp
  have i2: "client_get_info demo_env_rate_down (client demo_wallet) ()
      = (Inr \<lparr>methods = required_nip47_methods\<rparr>, ())"
    by (simp add: demo_env_rate_down_def demo_env_def)
  have m2: "{''get_info'', ''get_balance'', ''make_invoice'', ''pay_invoice'', ''lookup_invoice''}
      \<subseteq> set (methods \<lparr>methods = required_nip47_methods\<rparr>)"
    by (simp add: required_nip47_methods_def)
  have b2: "client_get_balance demo_env_rate_down (client demo_wallet) ()
      = (Inr \<lparr>Nip47GetBalanceResponse.balance = 12345678\<rparr>, ())"
    by (simp add: demo_env_rate_down_def demo_env_def)
  have f2: "fx_from_sats demo_env_rate_down
      (Nip47GetBalanceResponse.balance \<lparr>Nip47GetBalanceResponse.balance = 12345678\<rparr> div 1000)
      (NWCWallet.unit demo_wallet) () = (Inl (OtherException ''rate fetch failed''), ())"
    by (simp add: demo_env_rate_down_def demo_env_def)
  have s2: "fx_to_sats demo_env_rate_down (Amount.amount ?amt) (NWCWallet.unit demo_wallet) ()
      = (Inl (OtherException ''rate fetch failed''), ())"
    by (simp add: demo_env_rate_down_def demo_env_def)
  from t2 [THEN conjunct2, THEN conjunct2, THEN conjunct2, THEN conjunct2, THEN conjunct2,
      THEN conjunct2, THEN conjunct2, THEN conjunct1, rule_format,
      OF i2 m2 b2 f2]
  have "\<exists>msg. status demo_env_rate_down demo_wallet ((), []) =
         (Inr \<lparr>StatusResponse.balance = 0, error_message = Some msg\<rparr>,
          ((), [] @ [GetInfo, GetBalance,
                FromSats (Nip47GetBalanceResponse.balance
                           \<lparr>Nip47GetBalanceResponse.balance = 12345678\<rparr> div 1000)
                  (NWCWallet.unit demo_wallet)]))"
    by simp
  then have c4: "\<exists>msg. status demo_env_rate_down demo_wallet ((), []) =
         (Inr \<lparr>StatusResponse.balance = 0, error_message = Some msg\<rparr>,
          ((), [GetInfo, GetBalance, FromSats 12345 sat]))"
    by (simp add: demo_wallet_def)
  from t2 [THEN conjunct2, THEN conjunct2, THEN conjunct2, THEN conjunct2, THEN conjunct2,
      THEN conjunct2, THEN conjunct2, THEN conjunct2, THEN conjunct1,
      rule_format, OF s2]
  have "\<exists>msg. create_invoice demo_env_rate_down demo_wallet ?amt None None None ((), []) =
         (Inr \<lparr>InvoiceResponse.ok = False, checking_id = None, payment_request = None,
               error_message = Some msg\<rparr>,
          ((), [] @ [ToSats (Amount.amount ?amt) (NWCWallet.unit demo_wallet)]))"
    by simp
  then have c5: "\<exists>msg. create_invoice demo_env_rate_down demo_wallet ?amt None None None ((), []) =
         (Inr \<lparr>InvoiceResponse.ok = False, checking_id = None, payment_request = None,
               error_message = Some msg\<rparr>, ((), [ToSats 1000 sat]))"
    by (simp add: demo_wallet_def)
  have p3: "client_pay_invoice demo_env_lookup_down (client demo_wallet)
      \<lparr>Nip47PayInvoiceRequest.invoice = MeltQuote.request demo_quote\<rparr> ()
      = (Inr \<lparr>Nip47PayResponse.preimage = ''c0ffee''\<rparr>, ())"
    by (simp add: demo_env_lookup_down_def demo_env_def)
  have l3: "client_lookup_invoice demo_env_lookup_down (client demo_wallet)
      \<lparr>Nip47LookupInvoiceRequest.payment_hash = MeltQuote.checking_id demo_quote\<rparr> ()
      = (Inl (Nip47Error ''NOT_FOUND''), ())"
    by (simp add: demo_env_lookup_down_def demo_env_def)
  from t3 [THEN conjunct2, THEN conjunct2, THEN conjunct2, THEN conjunct2, THEN conjunct2,
      THEN conjunct2, THEN conjunct2, THEN conjunct2, THEN conjunct2,
      THEN conjunct2, THEN conjunct2, THEN conjunct1, rule_format, OF p3 l3]
  have "pay_invoice demo_env_lookup_down demo_wallet demo_quote 5000 ((), []) =
         (Inr \<lparr>PaymentResponse.ok = True, checking_id = None,
               fee = Some \<lparr>Amount.unit = NWCWallet.unit demo_wallet, amount = 0\<rparr>,
               preimage = Some (Nip47PayResponse.preimage \<lparr>Nip47PayResponse.preimage = ''c0ffee''\<rparr>),
               error_message = None\<rparr>,
          ((), [] @ [PayInvoice \<lparr>Nip47PayInvoiceRequest.invoice = MeltQuote.request demo_quote\<rparr>,
                LookupInvoice \<lparr>Nip47LookupInvoiceRequest.payment_hash =
                                 MeltQuote.checking_id demo_quote\<rparr>]))"
    by simp
  then have c6: "pay_invoice demo_env_lookup_down demo_wallet demo_quote 5000 ((), []) =
         (Inr \<lparr>PaymentResponse.ok = True, checking_id = None,
               fee = Some \<lparr>Amount.unit = sat, amount = 0\<rparr>,
               preimage = Some ''c0ffee'', error_message = None\<rparr>,
          ((), [PayInvoice \<lparr>Nip47PayInvoiceRequest.invoice = ''lnbc2505n1demo''\<rparr>,
                LookupInvoice \<lparr>Nip47LookupInvoiceRequest.payment_hash = ''ab12''\<rparr>]))"
    by (simp add: demo_wallet_def demo_quote_def)
  from c2 have c2': "\<exists>msg. pay_invoice demo_env_client_down demo_wallet demo_quote 5000 ((), []) =
         (Inr \<lparr>PaymentResponse.ok = False, checking_id = None, fee = None, preimage = None,
               error_message = Some msg\<rparr>,
          ((), [PayInvoice \<lparr>Nip47PayInvoiceRequest.invoice = ''lnbc2505n1demo''\<rparr>]))"
    by (simp add: demo_quote_def)
  from o1 c1 c2' c3 o2 c4 c5 o3 c6 show ?thesis by simp
qed

subsection \<open>\<open>get_payment_quote\<close>\<close>

lemma bnd_lift_Inr: "bnd (lift (Inr v)) f = f v"
  by (rule ext) (simp add: bnd_def lift_def)

lemma bnd_lift_Inl: "bnd (lift (Inl e)) f = raise e"
  by (rule ext) (simp add: bnd_def lift_def raise_def)

lemma bnd_ret: "bnd (ret v) f = f v"
  by (rule ext) (simp add: bnd_def ret_def)

lemma bnd_raise: "bnd (raise e) f = raise e"
  by (rule ext) (simp add: bnd_def raise_def)

lemma get_payment_quote_prefix:
  fixes env :: "'w env"
  assumes dec: "decode env (PostMeltQuoteRequest.request melt_quote) = Inr invoice_obj"
      and am: "amount_msat invoice_obj = Some m" and nz: "m \<noteq> 0"
      and sel: "(mpp melt_quote = None \<and> a = m)
                \<or> (\<exists>p u r. mpp melt_quote = Some p
                      \<and> unit_by_name env (PostMeltQuoteRequest.unit melt_quote) = Inr u
                      \<and> amount_to env \<lparr>Amount.unit = u, amount = p\<rparr> msat None = Inr r
                      \<and> a = Amount.amount r)"
  shows "get_payment_quote env self melt_quote s =
     bnd (lift (fee_reserve env a)) (\<lambda>fees_msat.
     bnd (await (FromSats (a div 1000) (NWCWallet.unit self))
            (fx_from_sats env (a div 1000) (NWCWallet.unit self))) (\<lambda>amount_unit.
     bnd (await (FromSats (fees_msat div 1000) (NWCWallet.unit self))
            (fx_from_sats env (fees_msat div 1000) (NWCWallet.unit self))) (\<lambda>fees_unit.
     bnd (lift (amount_to env \<lparr>Amount.unit = NWCWallet.unit self, amount = fees_unit\<rparr>
                  (NWCWallet.unit self) (Some up))) (\<lambda>fee_up.
     bnd (lift (amount_to env \<lparr>Amount.unit = NWCWallet.unit self, amount = amount_unit\<rparr>
                  (NWCWallet.unit self) (Some up))) (\<lambda>amount_up.
       ret \<lparr>PaymentQuoteResponse.checking_id = Bolt11.payment_hash invoice_obj,
            fee = fee_up,
            amount = amount_up\<rparr>))))) s"
  using sel
proof (elim disjE conjE exE)
  assume "mpp melt_quote = None" and "a = m"
  with dec am nz show ?thesis
    by (simp add: get_payment_quote_def bnd_lift_Inr bnd_ret Let_def)
next
  fix p u r
  assume "mpp melt_quote = Some p"
    and "unit_by_name env (PostMeltQuoteRequest.unit melt_quote) = Inr u"
    and "amount_to env \<lparr>Amount.unit = u, amount = p\<rparr> msat None = Inr r"
    and "a = Amount.amount r"
  with dec am nz show ?thesis
    by (simp add: get_payment_quote_def bnd_lift_Inr bnd_ret Let_def)
qed

text \<open>
  The rate provider is cancelled while \<open>status\<close> converts the balance, and while
  \<open>create_invoice\<close> converts the amount: the exception is outside \<open>Exception\<close>, no handler
  of these operations catches it, and it leaves them as it leaves \<open>get_payment_quote\<close>.
\<close>

theorem rate_provider_cancelled_counterexample:
  "status demo_env_rate_cancelled demo_wallet ((), []) =
     (Inl (OtherBaseException ''CancelledError''),
      ((), [GetInfo, GetBalance, FromSats 12345 sat]))
   \<and> create_invoice demo_env_rate_cancelled demo_wallet \<lparr>Amount.unit = sat, amount = 1000\<rparr>
        None None None ((), []) =
     (Inl (OtherBaseException ''CancelledError''), ((), [ToSats 1000 sat]))"
  by (simp add: status_def status_body_def status_except_def
      create_invoice_def create_invoice_body_def create_invoice_except_def amt_to_sat_def
      try_except_def bnd_def await_def ret_def raise_def required_nip47_methods_def
      demo_env_rate_cancelled_def demo_env_def demo_wallet_def)

text \<open>
  Claim C10, amended. Take a request whose invoice decodes, carries a non-zero amount, and
  whose amount to quote \<open>a\<close> has been determined (the invoice's amount, or the multi-path
  override converted to millisatoshis). Then an exception of \<open>fee_reserve\<close>, of the first
  \<open>from_sats\<close> call or of the second \<open>from_sats\<close> call is the outcome of
  \<open>get_payment_quote\<close>: nothing catches it. The five other operations catch every failure
  that is an instance of \<open>Exception\<close>: when the protocol client and the rate provider
  raise nothing else, \<open>status\<close>, \<open>create_invoice\<close>, \<open>pay_invoice\<close>, \<open>get_invoice_status\<close> and
  \<open>get_payment_status\<close> return a result value.
\<close>

theorem get_payment_quote_propagates:
  fixes env :: "'w env"
  assumes dec: "decode env (PostMeltQuoteRequest.request melt_quote) = Inr invoice_obj"
      and am: "amount_msat invoice_obj = Some m" and nz: "m \<noteq> 0"
      and sel: "(mpp melt_quote = None \<and> a = m)
                \<or> (\<exists>p u r. mpp melt_quote = Some p
                      \<and> unit_by_name env (PostMeltQuoteRequest.unit melt_quote) = Inr u
                      \<and> amount_to env \<lparr>Amount.unit = u, amount = p\<rparr> msat None = Inr r
                      \<and> a = Amount.amount r)"
  shows "(\<forall>e. fee_reserve env a = Inl e \<longrightarrow>
            get_payment_quote env self melt_quote (w, tr) = (Inl e, (w, tr)))
       \<and> (\<forall>f e w1. fee_reserve env a = Inr f \<longrightarrow>
            fx_from_sats env (a div 1000) (NWCWallet.unit self) w = (Inl e, w1) \<longrightarrow>
            get_payment_quote env self melt_quote (w, tr) =
              (Inl e, (w1, tr @ [FromSats (a div 1000) (NWCWallet.unit self)])))
       \<and> (\<forall>f x w1 e w2. fee_reserve env a = Inr f \<longrightarrow>
            fx_from_sats env (a div 1000) (NWCWallet.unit self) w = (Inr x, w1) \<longrightarrow>
            fx_from_sats env (f div 1000) (NWCWallet.unit self) w1 = (Inl e, w2) \<longrightarrow>
            get_payment_quote env self melt_quote (w, tr) =
              (Inl e, (w2, tr @ [FromSats (a div 1000) (NWCWallet.unit self),
                                 FromSats (f div 1000) (NWCWallet.unit self)])))
       \<and> (raises_only_Exception env \<longrightarrow>
             (\<exists>r s'. status env self (w, tr) = (Inr r, s'))
           \<and> (\<exists>r s'. create_invoice env self amt memo description_hash unhashed_description
                          (w, tr) = (Inr r, s'))
           \<and> (\<exists>r s'. pay_invoice env self quote fee_limit_msat (w, tr) = (Inr r, s'))
           \<and> (\<exists>r s'. get_invoice_status env self cid (w, tr) = (Inr r, s'))
           \<and> (\<exists>r s'. get_payment_status env self cid (w, tr) = (Inr r, s')))"
proof (intro conjI allI impI)
  fix e assume "fee_reserve env a = Inl e"
  then show "get_payment_quote env self melt_quote (w, tr) = (Inl e, (w, tr))"
    by (simp add: get_payment_quote_prefix [OF dec am nz sel] bnd_lift_Inl raise_def)
next
  fix f e w1
  assume fr: "fee_reserve env a = Inr f"
    and fs: "fx_from_sats env (a div 1000) (NWCWallet.unit self) w = (Inl e, w1)"
  from fs have "await (FromSats (a div 1000) (NWCWallet.unit self))
      (fx_from_sats env (a div 1000) (NWCWallet.unit self)) (w, tr)
      = (Inl e, (w1, tr @ [FromSats (a div 1000) (NWCWallet.unit self)]))"
    by (rule await_eq)
  with fr show "get_payment_quote env self melt_quote (w, tr) =
      (Inl e, (w1, tr @ [FromSats (a div 1000) (NWCWallet.unit self)]))"
    by (simp add: get_payment_quote_prefix [OF dec am nz sel] bnd_lift_Inr bnd_Inl)
next
  fix f x w1 e w2
  assume fr: "fee_reserve env a = Inr f"
    and fs1: "fx_from_sats env (a div 1000) (NWCWallet.unit self) w = (Inr x, w1)"
    and fs2: "fx_from_sats env (f div 1000) (NWCWallet.unit self) w1 = (Inl e, w2)"
  from fs1 have a1: "await (FromSats (a div 1000) (NWCWallet.unit self))
      (fx_from_sats env (a div 1000) (NWCWallet.unit self)) (w, tr)
      = (Inr x, (w1, tr @ [FromSats (a div 1000) (NWCWallet.unit self)]))"
    by (rule await_eq)
  from fs2 have a2: "await (FromSats (f div 1000) (NWCWallet.unit self))
      (fx_from_sats env (f div 1000) (NWCWallet.unit self))
      (w1, tr @ [FromSats (a div 1000) (NWCWallet.unit self)])
      = (Inl e, (w2, (tr @ [FromSats (a div 1000) (NWCWallet.unit self)])
                       @ [FromSats (f div 1000) (NWCWallet.unit self)]))"
    by (rule await_eq)
  from fr a1 a2 show "get_payment_quote env self melt_quote (w, tr) =
      (Inl e, (w2, tr @ [FromSats (a div 1000) (NWCWallet.unit self),
                         FromSats (f div 1000) (NWCWallet.unit self)]))"
    by (simp add: get_payment_quote_prefix [OF dec am nz sel] bnd_lift_Inr bnd_Inr bnd_Inl)
next
  assume only: "raises_only_Exception env"
  show "\<exists>r s'. status env self (w, tr) = (Inr r, s')"
    by (rule status_total [OF only])
  show "\<exists>r s'. create_invoice env self amt memo description_hash unhashed_description
                          (w, tr) = (Inr r, s')"
    by (rule create_invoice_total [OF only])
  show "\<exists>r s'. pay_invoice env self quote fee_limit_msat (w, tr) = (Inr r, s')"
    by (rule pay_invoice_total [OF only])
  show "\<exists>r s'. get_invoice_status env self cid (w, tr) = (Inr r, s')"
    by (rule get_invoice_status_total [OF only])
  show "\<exists>r s'. get_payment_status env self cid (w, tr) = (Inr r, s')"
    by (rule get_payment_status_total [OF only])
qed

theorem get_payment_quote_propagates_witness:
  "get_payment_quote
      (demo_env\<lparr>fee_reserve := (\<lambda>a. Inl (OtherException ''int too large to convert to float''))\<rparr>)
      demo_wallet demo_melt_request ((), [])
     = (Inl (OtherException ''int too large to convert to float''), ((), []))
   \<and> get_payment_quote demo_env_rate_down demo_wallet (demo_melt_request\<lparr>mpp := Some 100\<rparr>) ((), [])
     = (Inl (OtherException ''rate fetch failed''), ((), [FromSats 100 sat]))
   \<and> get_payment_quote
      (demo_env\<lparr>fx_from_sats := (\<lambda>s u w. if s < 100
                                          then (Inl (OtherException ''rate fetch failed''), w)
                                          else (Inr s, w))\<rparr>)
      demo_wallet demo_melt_request ((), [])
     = (Inl (OtherException ''rate fetch failed''), ((), [FromSats 250 sat, FromSats 2 sat]))
   \<and> raises_only_Exception demo_env_rate_down
   \<and> (\<exists>r s'. status demo_env_rate_down demo_wallet ((), []) = (Inr r, s'))"
proof -
  let ?e1 = "demo_env\<lparr>fee_reserve := (\<lambda>a. Inl (OtherException ''int too large to convert to float''))\<rparr>"
  let ?e3 = "demo_env\<lparr>fx_from_sats := (\<lambda>s u w. if s < 100
                                          then (Inl (OtherException ''rate fetch failed''), w)
                                          else (Inr s, w))\<rparr>"
  let ?inv = "\<lparr>amount_msat = Some 250500, payment_hash = ''ab12''\<rparr>"
  let ?mpp = "demo_melt_request\<lparr>mpp := Some 100\<rparr>"
  have nz: "(250500::int) \<noteq> 0" by simp
  have am: "amount_msat ?inv = Some 250500" by simp
  have d1: "decode ?e1 (PostMeltQuoteRequest.request demo_melt_request) = Inr ?inv"
    by (simp add: demo_env_def)
  have s1: "(mpp demo_melt_request = None \<and> (250500::int) = 250500)
      \<or> (\<exists>p u r. mpp demo_melt_request = Some p
            \<and> unit_by_name ?e1 (PostMeltQuoteRequest.unit demo_melt_request) = Inr u
            \<and> amount_to ?e1 \<lparr>Amount.unit = u, amount = p\<rparr> msat None = Inr r
            \<and> 250500 = Amount.amount r)"
    by (simp add: demo_melt_request_def)
  have f1: "fee_reserve ?e1 250500 = Inl (OtherException ''int too large to convert to float'')"
    by simp
  from get_payment_quote_propagates [OF d1 am nz s1, of demo_wallet "()" "[]"] f1
  have p1: "get_payment_quote ?e1 demo_wallet demo_melt_request ((), [])
     = (Inl (OtherException ''int too large to convert to float''), ((), []))"
    by blast
  have d2: "decode demo_env_rate_down (PostMeltQuoteRequest.request ?mpp) = Inr ?inv"
    by (simp add: demo_env_rate_down_def demo_env_def)
  have s2: "(mpp ?mpp = None \<and> (100000::int) = 250500)
      \<or> (\<exists>p u r. mpp ?mpp = Some p
            \<and> unit_by_name demo_env_rate_down (PostMeltQuoteRequest.unit ?mpp) = Inr u
            \<and> amount_to demo_env_rate_down \<lparr>Amount.unit = u, amount = p\<rparr> msat None = Inr r
            \<and> 100000 = Amount.amount r)"
    by (simp add: demo_melt_request_def demo_env_rate_down_def demo_env_def
        demo_unit_by_name_def demo_amount_to_def)
  have f2: "fee_reserve demo_env_rate_down 100000 = Inr 2000"
    by (simp add: demo_env_rate_down_def demo_env_def)
  have c2: "fx_from_sats demo_env_rate_down (100000 div 1000) (NWCWallet.unit demo_wallet) ()
      = (Inl (OtherException ''rate fetch failed''), ())"
    by (simp add: demo_env_rate_down_def demo_env_def)
  from get_payment_quote_propagates [OF d2 am nz s2, of demo_wallet "()" "[]"] f2 c2
  have "get_payment_quote demo_env_rate_down demo_wallet ?mpp ((), [])
     = (Inl (OtherException ''rate fetch failed''),
        ((), [] @ [FromSats (100000 div 1000) (NWCWallet.unit demo_wallet)]))"
    by blast
  then have p2: "get_payment_quote demo_env_rate_down demo_wallet ?mpp ((), [])
     = (Inl (OtherException ''rate fetch failed''), ((), [FromSats 100 sat]))"
    by (simp add: demo_wallet_def)
  have d3: "decode ?e3 (PostMeltQuoteRequest.request demo_melt_request) = Inr ?inv"
    by (simp add: demo_env_def)
  have s3: "(mpp demo_melt_request = None \<and> (250500::int) = 250500)
      \<or> (\<exists>p u r. mpp demo_melt_request = Some p
            \<and> unit_by_name ?e3 (PostMeltQuoteRequest.unit demo_melt_request) = Inr u
            \<and> amount_to ?e3 \<lparr>Amount.unit = u, amount = p\<rparr> msat None = Inr r
            \<and> 250500 = Amount.amount r)"
    by (simp add: demo_melt_request_def)
  have f3: "fee_reserve ?e3 250500 = Inr 2505"
    by (simp add: demo_env_def)
  have c3: "fx_from_sats ?e3 (250500 div 1000) (NWCWallet.unit demo_wallet) () = (Inr 250, ())"
    by simp
  have c3': "fx_from_sats ?e3 (2505 div 1000) (NWCWallet.unit demo_wallet) ()
      = (Inl (OtherException ''rate fetch failed''), ())"
    by simp
  from get_payment_quote_propagates [OF d3 am nz s3, of demo_wallet "()" "[]"] f3 c3 c3'
  have "get_payment_quote ?e3 demo_wallet demo_melt_request ((), [])
     = (Inl (OtherException ''rate fetch failed''),
        ((), [] @ [FromSats (250500 div 1000) (NWCWallet.unit demo_wallet),
                   FromSats (2505 div 1000) (NWCWallet.unit demo_wallet)]))"
    by blast
  then have p3: "get_payment_quote ?e3 demo_wallet demo_melt_request ((), [])
     = (Inl (OtherException ''rate fetch failed''), ((), [FromSats 250 sat, FromSats 2 sat]))"
    by (simp add: demo_wallet_def)
  have o2: "raises_only_Exception demo_env_rate_down"
    by (simp add: raises_only_Exception_def demo_env_rate_down_def demo_env_def)
  from get_payment_quote_propagates [OF d2 am nz s2, of demo_wallet "()" "[]",
      THEN conjunct2, THEN conjunct2, THEN conjunct2, rule_format, OF o2, THEN conjunct1]
  have p4: "\<exists>r s'. status demo_env_rate_down demo_wallet ((), []) = (Inr r, s')" .
  from p1 p2 p3 o2 p4 show ?thesis by (intro conjI)
qed

text \<open>
  The successful path: the rate provider is asked to convert \<open>a div 1000\<close> and
  \<open>f div 1000\<close> satoshis, the floors of the amount and of the fee reserve.
\<close>

lemma get_payment_quote_floor:
  fixes env :: "'w env"
  assumes dec: "decode env (PostMeltQuoteRequest.request melt_quote) = Inr invoice_obj"
      and am: "amount_msat invoice_obj = Some m" and nz: "m \<noteq> 0"
      and sel: "(mpp melt_quote = None \<and> a = m)
                \<or> (\<exists>p u r. mpp melt_quote = Some p
                      \<and> unit_by_name env (PostMeltQuoteRequest.unit melt_quote) = Inr u
                      \<and> amount_to env \<lparr>Amount.unit = u, amount = p\<rparr> msat None = Inr r
                      \<and> a = Amount.amount r)"
      and fr: "fee_reserve env a = Inr f"
      and fs1: "fx_from_sats env (a div 1000) (NWCWallet.unit self) w = (Inr x, w1)"
      and fs2: "fx_from_sats env (f div 1000) (NWCWallet.unit self) w1 = (Inr y, w2)"
      and to1: "amount_to env \<lparr>Amount.unit = NWCWallet.unit self, amount = y\<rparr>
                  (NWCWallet.unit self) (Some up) = Inr fee_up"
      and to2: "amount_to env \<lparr>Amount.unit = NWCWallet.unit self, amount = x\<rparr>
                  (NWCWallet.unit self) (Some up) = Inr amount_up"
  shows "get_payment_quote env self melt_quote (w, tr) =
           (Inr \<lparr>PaymentQuoteResponse.checking_id = Bolt11.payment_hash invoice_obj,
                 fee = fee_up, amount = amount_up\<rparr>,
            (w2, tr @ [FromSats (a div 1000) (NWCWallet.unit self),
                       FromSats (f div 1000) (NWCWallet.unit self)]))"
proof -
  from fs1 have a1: "await (FromSats (a div 1000) (NWCWallet.unit self))
      (fx_from_sats env (a div 1000) (NWCWallet.unit self)) (w, tr)
      = (Inr x, (w1, tr @ [FromSats (a div 1000) (NWCWallet.unit self)]))"
    by (rule await_eq)
  from fs2 have a2: "await (FromSats (f div 1000) (NWCWallet.unit self))
      (fx_from_sats env (f div 1000) (NWCWallet.unit self))
      (w1, tr @ [FromSats (a div 1000) (NWCWallet.unit self)])
      = (Inr y, (w2, (tr @ [FromSats (a div 1000) (NWCWallet.unit self)])
                       @ [FromSats (f div 1000) (NWCWallet.unit self)]))"
    by (rule await_eq)
  from fr a1 a2 to1 to2 show ?thesis
    by (simp add: get_payment_quote_prefix [OF dec am nz sel] bnd_lift_Inr bnd_Inr ret_def)
qed

text \<open>
  Claim C1 states that the quoted amount and fee are rounded up. The wallet in satoshis,
  with a rate provider that maps satoshis to satoshis: for an invoice of 250500
  millisatoshis and a fee reserve of 2505 millisatoshis the quote is 250 and 2 satoshis,
  below 250.5 and 2.505; for an invoice of 1000 millisatoshis and a fee reserve of 1
  millisatoshi the quoted fee is 0. The floor is taken by \<open>div 1000\<close> before the
  conversion, and the final \<open>to(self.unit, round="up")\<close> receives an amount that is already
  in the wallet's unit.
\<close>

theorem get_payment_quote_rounds_down:
  "decode demo_env (PostMeltQuoteRequest.request demo_melt_request)
     = Inr \<lparr>amount_msat = Some 250500, payment_hash = ''ab12''\<rparr>
   \<and> fee_reserve demo_env 250500 = Inr 2505
   \<and> get_payment_quote demo_env demo_wallet demo_melt_request ((), []) =
       (Inr \<lparr>PaymentQuoteResponse.checking_id = ''ab12'',
             fee = \<lparr>Amount.unit = sat, amount = 2\<rparr>,
             amount = \<lparr>Amount.unit = sat, amount = 250\<rparr>\<rparr>,
        ((), [FromSats 250 sat, FromSats 2 sat]))
   \<and> decode demo_env_small_fee (PostMeltQuoteRequest.request demo_melt_request)
     = Inr \<lparr>amount_msat = Some 1000, payment_hash = ''ab12''\<rparr>
   \<and> fee_reserve demo_env_small_fee 1000 = Inr 1
   \<and> get_payment_quote demo_env_small_fee demo_wallet demo_melt_request ((), []) =
       (Inr \<lparr>PaymentQuoteResponse.checking_id = ''ab12'',
             fee = \<lparr>Amount.unit = sat, amount = 0\<rparr>,
             amount = \<lparr>Amount.unit = sat, amount = 1\<rparr>\<rparr>,
        ((), [FromSats 1 sat, FromSats 0 sat]))"
  by (simp add: get_payment_quote_def bnd_def lift_def ret_def await_def
      demo_env_small_fee_def demo_env_def demo_wallet_def demo_melt_request_def
      demo_amount_to_def)

end
